theory Spec2Isabelle
  imports Main "HOL-Library.AList"
begin

section \<open>Values of the platform used by timer.js\<close>

text \<open>
  Numbers of the script are integers here: every number the timer computes with comes
  from \<open>parseInt\<close>, from a counter or from a difference of millisecond time stamps.
  (Beyond \<open>2^53\<close> JavaScript rounds; that range is not modelled.)  A \<open>Date\<close> is its
  number of milliseconds since the epoch.  \<open>None\<close> stands for \<open>NaN\<close> where a number
  is expected and for \<open>null\<close>/\<open>undefined\<close> where a string or a date is expected.
\<close>

text \<open>
  A \<open>char\<close> is a code unit below 256.  White space of \<open>parseInt\<close> in that range: tab,
  line feed, vertical tab, form feed, carriage return, space and no-break space.
\<close>

definition isWhiteSpace :: "char \<Rightarrow> bool" where
  "isWhiteSpace c =
     (c \<in> set [CHR 0x09, CHR 0x0A, CHR 0x0B, CHR 0x0C, CHR 0x0D, CHR '' '', CHR 0xA0])"

definition digitValue :: "char \<Rightarrow> nat option" where
  "digitValue c =
     (let n = (of_char c :: nat)
      in if 48 \<le> n \<and> n \<le> 57 then Some (n - 48)
         else if 97 \<le> n \<and> n \<le> 122 then Some (n - 87)
         else if 65 \<le> n \<and> n \<le> 90 then Some (n - 55)
         else None)"

definition radixDigit :: "nat \<Rightarrow> char \<Rightarrow> bool" where
  "radixDigit R c = (case digitValue c of Some d \<Rightarrow> d < R | None \<Rightarrow> False)"

definition mathInt :: "nat \<Rightarrow> string \<Rightarrow> nat" where
  "mathInt R Z = fold (\<lambda>c acc. acc * R + (case digitValue c of Some d \<Rightarrow> d | None \<Rightarrow> 0)) Z 0"

text \<open>
  \<open>parseInt(string)\<close> with no radix argument, after ECMAScript: leading white space is
  dropped, a sign is read, a \<open>0x\<close>/\<open>0X\<close> prefix selects radix 16, the longest prefix
  of digits is the number, and no digit at all gives \<open>NaN\<close>.
\<close>

definition parseInt :: "string \<Rightarrow> int option" where
  "parseInt inputString =
     (let S = dropWhile isWhiteSpace inputString;
          sign = (if S \<noteq> [] \<and> hd S = CHR ''-'' then - 1 else 1 :: int);
          S1 = (if S \<noteq> [] \<and> (hd S = CHR ''+'' \<or> hd S = CHR ''-'') then tl S else S);
          hex = (take 2 S1 = ''0x'' \<or> take 2 S1 = ''0X'');
          R = (if hex then 16 else 10);
          S2 = (if hex then drop 2 S1 else S1);
          Z = takeWhile (radixDigit R) S2
      in if Z = [] then None else Some (sign * int (mathInt R Z)))"

text \<open>\<open>String(v)\<close> of a value that is a string or \<open>null\<close>, as \<open>parseInt\<close> applies it.\<close>

definition toString :: "string option \<Rightarrow> string" where
  "toString v = (case v of None \<Rightarrow> ''null'' | Some x \<Rightarrow> x)"

text \<open>\<open>x || d\<close> on a number: \<open>NaN\<close> and \<open>0\<close> are falsy.\<close>

definition orDefault :: "int option \<Rightarrow> int \<Rightarrow> int" where
  "orDefault x d = (case x of None \<Rightarrow> d | Some n \<Rightarrow> if n = 0 then d else n)"

text \<open>\<open>String(n)\<close> of an integer, as an assignment to an input's \<open>value\<close> applies it.\<close>

function showNat :: "nat \<Rightarrow> string" where
  "showNat n = (if n < 10 then [char_of (48 + n)] else showNat (n div 10) @ [char_of (48 + n mod 10)])"
  by pat_completeness auto
termination
  by (relation "measure id") auto

definition showInt :: "int \<Rightarrow> string" where
  "showInt n = (if n < 0 then CHR ''-'' # showNat (nat (- n)) else showNat (nat n))"

section \<open>The state of the timer module and of its page\<close>

datatype error = ReferenceError | TypeError

datatype iso_string = ISO int

definition toISOString :: "int \<Rightarrow> iso_string" where
  "toISOString t = ISO t"

fun newDate :: "iso_string \<Rightarrow> int" where
  "newDate (ISO t) = t"

text \<open>
  What the property \<open>goalText\<close> of a session can hold.  \<open>Text\<close>: a string.
  \<open>Member n\<close>: the member of \<open>Object.prototype\<close> named \<open>n\<close>, which
  \<open>matchGoalIdsWithDropdown\<close> stores when a goal id is such a name and no option has it
  as value.  \<open>EmptyObject\<close>: the object that the JSON text \<open>{}\<close> parses to.  In JSON
  text a \<open>goalText\<close> is a string or \<open>{}\<close>.
\<close>

datatype label = Text string | Member string | EmptyObject

datatype json_label = JString string | JObject

text \<open>A session object of the \<open>sessions\<close> array.\<close>

record session =
  ses_startTime :: "int option"
  ses_endTime :: int
  duration :: "int option"
  isWorkSession :: bool
  goalId :: "string option"
  goalText :: "label option"
  pomodoroNumber :: int
  ses_totalPomodoros :: int

text \<open>The same object as JSON text: the two dates are ISO strings.\<close>

record json_session =
  js_startTime :: iso_string
  js_endTime :: iso_string
  js_duration :: "int option"
  js_isWorkSession :: bool
  js_goalId :: "string option"
  js_goalText :: "json_label option"
  js_pomodoroNumber :: int
  js_totalPomodoros :: int

text \<open>An \<open>option\<close> element of the goal selector.\<close>

record goal_option =
  opt_value :: string
  opt_text :: string
  opt_estimated :: "string option"

datatype status_text =
    PageText
  | WorkTimeText int int
  | BreakTimeText
  | PausedText
  | ReadyToStartText
  | TaskCompletedText
  | ReadyForText int int

datatype request =
    PostGoalComplete string
  | PostPomodoro "string option" iso_string iso_string int int

text \<open>
  The module's variables keep their names.  \<open>timer\<close> holds an interval handle:
  \<open>timer_live\<close> says whether that handle is of a live interval, \<open>intervals\<close> counts the
  live \<open>setInterval\<close> countdowns (all run the same callback), and \<open>timeouts\<close> lists the
  delays of the pending \<open>setTimeout\<close> calls, each of which calls \<open>startTimer\<close>.
  The fields after \<open>totalPomodoros\<close> are the page: the elements the script looks up
  are taken to exist, so each \<open>if (element)\<close> guard of the source succeeds.  The
  functions that only write text the script never reads back (\<open>updateDisplay\<close>,
  \<open>updateProgressDisplay\<close>, \<open>updateSessionsDisplay\<close>, the goal caption) leave this
  state unchanged and are not written out.  \<open>utcOffset\<close> is the local zone's offset
  from UTC in milliseconds, \<open>quotaExceeded\<close> says whether \<open>localStorage.setItem\<close>
  throws, and \<open>requests\<close> logs the \<open>fetch\<close> calls issued.
\<close>

record state =
  timer_live :: bool
  intervals :: nat
  timeouts :: "nat list"
  timeLeft :: int
  isRunning :: bool
  isPaused :: bool
  isWorkTime :: bool
  workMinutes :: int
  breakMinutes :: int
  sessionsCompleted :: int
  startTime :: "int option"
  sessions :: "session list"
  autoStartTimer :: bool
  currentPomodoroCount :: int
  totalPomodoros :: int
  statusText :: status_text
  startBtn_disabled :: bool
  startBtn_text :: string
  pauseBtn_disabled :: bool
  workMinutesInput_value :: string
  workMinutesInput_disabled :: bool
  breakMinutesInput_value :: string
  breakMinutesInput_disabled :: bool
  goalSelect_options :: "goal_option list"
  goalSelect_selectedIndex :: int
  goalSelect_disabled :: bool
  userId :: "string option"
  utcOffset :: int
  localStorage :: "(string \<times> json_session list) list"
  quotaExceeded :: bool
  requests :: "request list"

definition setInterval :: "state \<Rightarrow> state" where
  "setInterval s = s\<lparr>intervals := Suc (intervals s), timer_live := True\<rparr>"

definition clearInterval :: "state \<Rightarrow> state" where
  "clearInterval s =
     (if timer_live s then s\<lparr>intervals := intervals s - 1, timer_live := False\<rparr> else s)"

definition setTimeout :: "nat \<Rightarrow> state \<Rightarrow> state" where
  "setTimeout delay s = s\<lparr>timeouts := timeouts s @ [delay]\<rparr>"

text \<open>\<open>goalSelect.value\<close>: the value of the selected option, or the empty string.\<close>

definition goalSelect_value :: "state \<Rightarrow> string" where
  "goalSelect_value s =
     (let i = goalSelect_selectedIndex s
      in if 0 \<le> i \<and> i < int (length (goalSelect_options s))
         then opt_value (goalSelect_options s ! nat i) else '''')"

section \<open>Timer control\<close>

definition initTimer :: "state \<Rightarrow> state" where
  "initTimer s =
     (let s1 = s\<lparr>workMinutes := orDefault (parseInt (workMinutesInput_value s)) 25\<rparr>;
          s2 = s1\<lparr>breakMinutes := orDefault (parseInt (breakMinutesInput_value s1)) 5\<rparr>
      in s2\<lparr>timeLeft := workMinutes s2 * 60\<rparr>)"

definition startTimer :: "int \<Rightarrow> state \<Rightarrow> state" where
  "startTimer now s =
     (if \<not> isRunning s then
        let s1 = (if isPaused s then s\<lparr>isPaused := False\<rparr> else s\<lparr>startTime := Some now\<rparr>);
            s2 = s1\<lparr>isRunning := True\<rparr>;
            s3 = s2\<lparr>statusText :=
                   (if isWorkTime s2
                    then WorkTimeText (currentPomodoroCount s2 + 1) (totalPomodoros s2)
                    else BreakTimeText)\<rparr>;
            s4 = s3\<lparr>startBtn_disabled := True, pauseBtn_disabled := False,
                   workMinutesInput_disabled := True, breakMinutesInput_disabled := True,
                   goalSelect_disabled := True\<rparr>
        in setInterval s4
      else s)"

definition pauseTimer :: "state \<Rightarrow> state" where
  "pauseTimer s =
     (if isRunning s then
        let s1 = clearInterval s;
            s2 = s1\<lparr>isPaused := True, isRunning := False\<rparr>
        in s2\<lparr>statusText := PausedText, startBtn_disabled := False,
              startBtn_text := ''Resume'', pauseBtn_disabled := True\<rparr>
      else s)"

definition resetTimer :: "state \<Rightarrow> state" where
  "resetTimer s =
     (let s1 = clearInterval s;
          s2 = s1\<lparr>isRunning := False, isPaused := False, isWorkTime := True\<rparr>;
          s3 = s2\<lparr>statusText := ReadyToStartText\<rparr>;
          s4 = s3\<lparr>currentPomodoroCount := 0\<rparr>;
          s5 = s4\<lparr>startBtn_text := ''Start'', startBtn_disabled := False,
                 pauseBtn_disabled := True, workMinutesInput_disabled := False,
                 breakMinutesInput_disabled := False, goalSelect_disabled := False\<rparr>
      in initTimer s5)"

section \<open>Session accounting\<close>

text \<open>
  \<open>JSON.stringify\<close> on a \<open>goalText\<close>: a string stays, a function is left out (the
  members of \<open>Object.prototype\<close> are functions, but for \<open>__proto__\<close>, which is
  \<open>Object.prototype\<close> itself), and an object without enumerable properties is \<open>{}\<close>.
\<close>

definition labelToJson :: "label option \<Rightarrow> json_label option" where
  "labelToJson v =
     (case v of
        None \<Rightarrow> None
      | Some (Text t) \<Rightarrow> Some (JString t)
      | Some (Member n) \<Rightarrow> if n = ''__proto__'' then Some JObject else None
      | Some EmptyObject \<Rightarrow> Some JObject)"

text \<open>
  The argument of \<open>JSON.stringify\<close> in \<open>completeSession\<close>: \<open>toISOString\<close> of a start
  time that is \<open>undefined\<close> throws.
\<close>

definition toJson :: "session \<Rightarrow> error + json_session" where
  "toJson x =
     (case ses_startTime x of
        None \<Rightarrow> Inl TypeError
      | Some t \<Rightarrow>
          Inr \<lparr>js_startTime = toISOString t, js_endTime = toISOString (ses_endTime x),
               js_duration = duration x, js_isWorkSession = isWorkSession x,
               js_goalId = goalId x, js_goalText = labelToJson (goalText x),
               js_pomodoroNumber = pomodoroNumber x,
               js_totalPomodoros = ses_totalPomodoros x\<rparr>)"

fun stringify :: "session list \<Rightarrow> error + json_session list" where
  "stringify [] = Inr []"
| "stringify (x # xs) =
     (case toJson x of
        Inl e \<Rightarrow> Inl e
      | Inr j \<Rightarrow> (case stringify xs of Inl e \<Rightarrow> Inl e | Inr js \<Rightarrow> Inr (j # js)))"

definition storageKey :: "string option \<Rightarrow> string" where
  "storageKey u = ''pomodoro_sessions_'' @ toString u"

text \<open>The \<open>try\<close>/\<open>catch\<close> around \<open>localStorage.setItem\<close>: a failure is logged only.\<close>

definition saveToLocalStorage :: "state \<Rightarrow> state" where
  "saveToLocalStorage s =
     (case stringify (sessions s) of
        Inl e \<Rightarrow> s
      | Inr js \<Rightarrow>
          if quotaExceeded s then s
          else s\<lparr>localStorage := AList.update (storageKey (userId s)) js (localStorage s)\<rparr>)"

text \<open>\<open>saveSession\<close> issues the request; its continuation only annotates the list shown.\<close>

definition saveSession :: "session \<Rightarrow> state \<Rightarrow> error + state" where
  "saveSession x s =
     (case ses_startTime x of
        None \<Rightarrow> Inl TypeError
      | Some t \<Rightarrow>
          Inr (s\<lparr>requests := requests s @
                 [PostPomodoro (goalId x) (toISOString t) (toISOString (ses_endTime x))
                    (pomodoroNumber x) (ses_totalPomodoros x)]\<rparr>))"

definition markGoalAsCompleted :: "string \<Rightarrow> state \<Rightarrow> state" where
  "markGoalAsCompleted g s = s\<lparr>requests := requests s @ [PostGoalComplete g]\<rparr>"

text \<open>
  \<open>completeSession\<close>, block by block.  First the session object of a work interval,
  built after the counter was incremented: the goal id is the selector's value, or
  \<open>null\<close> when that is empty, and the text is read from the selected option.
\<close>

definition newSession :: "int \<Rightarrow> state \<Rightarrow> session" where
  "newSession endTime s =
     (let gid = (if goalSelect_value s \<noteq> '''' then Some (goalSelect_value s) else None);
          selectedGoalText =
            (if gid \<noteq> None \<and> goalSelect_selectedIndex s \<ge> 0
             then Some (Text (opt_text (goalSelect_options s ! nat (goalSelect_selectedIndex s))))
             else None)
      in \<lparr>ses_startTime = startTime s, ses_endTime = endTime,
          duration = (case startTime s of None \<Rightarrow> None
                      | Some t \<Rightarrow> Some ((endTime - t) div 1000)),
          isWorkSession = True, goalId = gid, goalText = selectedGoalText,
          pomodoroNumber = currentPomodoroCount s,
          ses_totalPomodoros = totalPomodoros s\<rparr>)"

text \<open>The branch \<open>currentPomodoroCount >= totalPomodoros\<close>: the last pomodoro of the goal.\<close>

definition taskCompleted :: "string option \<Rightarrow> state \<Rightarrow> state" where
  "taskCompleted gid s =
     (let s1 = s\<lparr>isWorkTime := True, timeLeft := workMinutes s * 60, isRunning := False\<rparr>;
          s2 = s1\<lparr>statusText := TaskCompletedText, startBtn_disabled := False,
                 pauseBtn_disabled := True, workMinutesInput_disabled := False,
                 breakMinutesInput_disabled := False, goalSelect_disabled := False\<rparr>
      in case gid of Some g \<Rightarrow> markGoalAsCompleted g s2 | None \<Rightarrow> s2)"

text \<open>Its \<open>else\<close> branch: an intermediate pomodoro, followed by a break.\<close>

definition switchToBreak :: "state \<Rightarrow> state" where
  "switchToBreak s =
     (let s1 = s\<lparr>isWorkTime := False, timeLeft := breakMinutes s * 60, isRunning := False\<rparr>;
          s2 = s1\<lparr>statusText := BreakTimeText\<rparr>;
          s3 = clearInterval s2
      in setTimeout 300 s3)"

text \<open>The outer \<open>else\<close> branch: a break is over.\<close>

definition breakCompleted :: "state \<Rightarrow> state" where
  "breakCompleted s =
     (let s1 = s\<lparr>isWorkTime := True, timeLeft := workMinutes s * 60, isRunning := False\<rparr>;
          s2 = s1\<lparr>statusText :=
                 ReadyForText (currentPomodoroCount s1 + 1) (totalPomodoros s1)\<rparr>;
          s3 = s2\<lparr>startBtn_disabled := False, pauseBtn_disabled := True\<rparr>
      in if currentPomodoroCount s3 < totalPomodoros s3 then setTimeout 1500 s3
         else s3\<lparr>workMinutesInput_disabled := False, breakMinutesInput_disabled := False,
                 goalSelect_disabled := False\<rparr>)"

text \<open>
  An exception of \<open>saveSession\<close> is not caught: the handler stops there, which is the
  state returned in that case.
\<close>

definition completeSession :: "int \<Rightarrow> state \<Rightarrow> state" where
  "completeSession endTime s =
     (if isWorkTime s then
        let s1 = s\<lparr>currentPomodoroCount := currentPomodoroCount s + 1\<rparr>;
            x = newSession endTime s1;
            s2 = s1\<lparr>sessions := sessions s1 @ [x]\<rparr>;
            s3 = saveToLocalStorage s2
        in case saveSession x s3 of
             Inl e \<Rightarrow> s3
           | Inr s4 \<Rightarrow>
               if currentPomodoroCount s4 \<ge> totalPomodoros s4
               then taskCompleted (goalId x) s4
               else switchToBreak s4
      else breakCompleted s)"

text \<open>The callback that \<open>startTimer\<close> hands to \<open>setInterval\<close>.\<close>

definition countdown :: "int \<Rightarrow> state \<Rightarrow> state" where
  "countdown now s =
     (let s1 = s\<lparr>timeLeft := timeLeft s - 1\<rparr>
      in if timeLeft s1 \<le> 0 then completeSession now (clearInterval s1) else s1)"

section \<open>Goal binding and page parameters\<close>

definition updateCurrentGoalDisplay :: "state \<Rightarrow> state" where
  "updateCurrentGoalDisplay s =
     (if goalSelect_value s \<noteq> '''' then
        let selectedOption = goalSelect_options s ! nat (goalSelect_selectedIndex s);
            s1 = s\<lparr>currentPomodoroCount := 0\<rparr>
        in s1\<lparr>totalPomodoros := orDefault (parseInt (toString (opt_estimated selectedOption))) 1\<rparr>
      else s\<lparr>totalPomodoros := 1, currentPomodoroCount := 0\<rparr>)"

text \<open>
  Assigning \<open>goalSelect.value\<close> selects the first option with that value, and no option
  (index \<open>-1\<close>) when there is none.
\<close>

fun indexOfValue :: "string \<Rightarrow> goal_option list \<Rightarrow> int" where
  "indexOfValue v [] = - 1"
| "indexOfValue v (x # xs) =
     (if opt_value x = v then 0
      else (let i = indexOfValue v xs in if i < 0 then - 1 else i + 1))"

definition setGoalSelectValue :: "string \<Rightarrow> state \<Rightarrow> state" where
  "setGoalSelectValue v s = s\<lparr>goalSelect_selectedIndex := indexOfValue v (goalSelect_options s)\<rparr>"

fun removeOption :: "string \<Rightarrow> goal_option list \<Rightarrow> goal_option list" where
  "removeOption g [] = []"
| "removeOption g (x # xs) = (if opt_value x = g then xs else x # removeOption g xs)"

text \<open>
  The continuation of \<open>markGoalAsCompleted\<close> on a successful response: the option is
  removed and the selection is cleared.  (A failed response changes nothing.)
\<close>

definition goalCompleted :: "string \<Rightarrow> state \<Rightarrow> state" where
  "goalCompleted g s =
     (let s1 = s\<lparr>goalSelect_options := removeOption g (goalSelect_options s)\<rparr>;
          s2 = setGoalSelectValue '''' s1
      in updateCurrentGoalDisplay s2)"

record query =
  q_goalId :: "string option"
  q_duration :: "string option"
  q_breakDuration :: "string option"
  q_autoStart :: "string option"

record url_params =
  p_goalId :: "string option"
  p_duration :: int
  p_breakDuration :: int
  p_autoStart :: bool

definition getUrlParams :: "query \<Rightarrow> url_params" where
  "getUrlParams params =
     (let autoStart = q_autoStart params
      in \<lparr>p_goalId = q_goalId params,
          p_duration = orDefault (parseInt (toString (q_duration params))) 25,
          p_breakDuration = orDefault (parseInt (toString (q_breakDuration params))) 5,
          p_autoStart = (autoStart = Some ''true'' \<or> autoStart = Some ''1'')\<rparr>)"

definition truthy :: "string option \<Rightarrow> bool" where
  "truthy v = (case v of None \<Rightarrow> False | Some x \<Rightarrow> x \<noteq> '''')"

definition initFromUrlParams :: "query \<Rightarrow> state \<Rightarrow> state" where
  "initFromUrlParams q s =
     (let params = getUrlParams q;
          s1 = (if truthy (p_goalId params)
                then updateCurrentGoalDisplay (setGoalSelectValue (toString (p_goalId params)) s)
                else s\<lparr>totalPomodoros := 1\<rparr>);
          s2 = (if p_duration params \<noteq> 0
                then s1\<lparr>workMinutesInput_value := showInt (p_duration params)\<rparr> else s1);
          s3 = (if p_breakDuration params \<noteq> 0
                then s2\<lparr>breakMinutesInput_value := showInt (p_breakDuration params)\<rparr> else s2);
          s4 = s3\<lparr>autoStartTimer := p_autoStart params\<rparr>;
          s5 = initTimer s4
      in if autoStartTimer s5 then setTimeout 500 s5 else s5)"

section \<open>Session reconciliation\<close>

text \<open>
  The name \<open>allSessions\<close> is read in \<open>loadSessions\<close> and in \<open>initTimerPage\<close> and is
  declared nowhere: reading it throws.
\<close>

definition allSessions :: "error + session list" where
  "allSessions = Inl ReferenceError"

text \<open>What \<open>JSON.parse\<close> makes of a \<open>goalText\<close>, and which labels are truthy.\<close>

definition labelOfJson :: "json_label \<Rightarrow> label" where
  "labelOfJson v = (case v of JString t \<Rightarrow> Text t | JObject \<Rightarrow> EmptyObject)"

definition truthyLabel :: "label option \<Rightarrow> bool" where
  "truthyLabel v =
     (case v of
        None \<Rightarrow> False
      | Some (Text t) \<Rightarrow> t \<noteq> ''''
      | Some (Member n) \<Rightarrow> True
      | Some EmptyObject \<Rightarrow> True)"

text \<open>\<open>session.goalText || d\<close>.\<close>

definition orText :: "label option \<Rightarrow> string \<Rightarrow> label option" where
  "orText v d = (if truthyLabel v then v else Some (Text d))"

definition revive :: "string \<Rightarrow> json_session \<Rightarrow> session" where
  "revive d j =
     \<lparr>ses_startTime = Some (newDate (js_startTime j)), ses_endTime = newDate (js_endTime j),
      duration = js_duration j, isWorkSession = js_isWorkSession j, goalId = js_goalId j,
      goalText = orText (map_option labelOfJson (js_goalText j)) d,
      pomodoroNumber = js_pomodoroNumber j,
      ses_totalPomodoros = js_totalPomodoros j\<rparr>"

text \<open>\<open>setHours(0, 0, 0, 0)\<close>: the local midnight before a time stamp.\<close>

definition startOfDay :: "int \<Rightarrow> int \<Rightarrow> int" where
  "startOfDay off t = t - (t + off) mod 86400000"

definition isToday :: "int \<Rightarrow> int \<Rightarrow> session \<Rightarrow> bool" where
  "isToday off now x =
     (case ses_startTime x of
        None \<Rightarrow> False
      | Some t \<Rightarrow> startOfDay off t = startOfDay off now)"

definition loadSessions :: "int \<Rightarrow> state \<Rightarrow> state" where
  "loadSessions now s =
     (if \<not> truthy (userId s) then s
      else if sessions s = [] then
        (case map_of (localStorage s) (storageKey (userId s)) of
           None \<Rightarrow> s
         | Some savedSessions \<Rightarrow>
             (let s1 = s\<lparr>sessions := map (revive ''Goal info not available'') savedSessions\<rparr>
              in case allSessions of
                   Inl e \<Rightarrow> s1\<lparr>sessions := []\<rparr>
                 | Inr every \<Rightarrow> s1\<lparr>sessions := filter (isToday (utcOffset s1) now) every\<rparr>))
      else s)"

text \<open>
  \<open>availableGoals\<close> is a plain object, \<open>{}\<close>, used as a dictionary: a map of its own
  entries, under \<open>Object.prototype\<close>.  Writing a string to the key \<open>__proto__\<close> runs the
  prototype's setter, which ignores it; writing to any other key makes an own entry.
  Reading a key finds the own entry, or else the member of \<open>Object.prototype\<close> of that
  name, or else \<open>undefined\<close>.
\<close>

definition objectPrototypeMembers :: "string list" where
  "objectPrototypeMembers =
     [''constructor'', ''hasOwnProperty'', ''isPrototypeOf'', ''propertyIsEnumerable'',
      ''toLocaleString'', ''toString'', ''valueOf'', ''__proto__'', ''__defineGetter__'',
      ''__defineSetter__'', ''__lookupGetter__'', ''__lookupSetter__'']"

definition setProperty :: "string \<Rightarrow> string \<Rightarrow> (string \<rightharpoonup> string) \<Rightarrow> (string \<rightharpoonup> string)" where
  "setProperty k v obj = (if k = ''__proto__'' then obj else obj(k \<mapsto> v))"

definition getProperty :: "(string \<rightharpoonup> string) \<Rightarrow> string \<Rightarrow> label option" where
  "getProperty obj k =
     (case obj k of
        Some t \<Rightarrow> Some (Text t)
      | None \<Rightarrow> if k \<in> set objectPrototypeMembers then Some (Member k) else None)"

definition availableGoals :: "goal_option list \<Rightarrow> (string \<rightharpoonup> string)" where
  "availableGoals opts =
     fold (\<lambda>option obj.
             if opt_value option \<noteq> ''''
             then setProperty (opt_value option) (opt_text option) obj else obj)
       opts Map.empty"

text \<open>The body of the \<open>forEach\<close>.\<close>

definition matchGoal :: "(string \<rightharpoonup> string) \<Rightarrow> session \<Rightarrow> session" where
  "matchGoal goals x =
     (case goalId x of
        None \<Rightarrow> x
      | Some g \<Rightarrow>
          if g \<noteq> '''' \<and> truthyLabel (getProperty goals g)
          then x\<lparr>goalText := getProperty goals g\<rparr> else x)"

definition matchGoalIdsWithDropdown :: "state \<Rightarrow> state" where
  "matchGoalIdsWithDropdown s =
     (if sessions s = [] then s
      else s\<lparr>sessions := map (matchGoal (availableGoals (goalSelect_options s))) (sessions s)\<rparr>)"

definition initTimerPage :: "int \<Rightarrow> json_session list \<Rightarrow> query \<Rightarrow> state \<Rightarrow> state" where
  "initTimerPage now serverSessions q s =
     (let s1 = (if serverSessions \<noteq> [] then
                  (let s' = s\<lparr>sessions := map (revive ''No goal selected'') serverSessions\<rparr>
                   in case allSessions of
                        Inl e \<Rightarrow> s'
                      | Inr every \<Rightarrow> s'\<lparr>sessions := filter (isToday (utcOffset s') now) every\<rparr>)
                else s);
          s2 = initFromUrlParams q s1;
          s3 = loadSessions now s2
      in matchGoalIdsWithDropdown s3)"

section \<open>Events\<close>

text \<open>
  What can happen to a loaded page: the three buttons, a tick of a live countdown, a
  pending timeout falling due, the user choosing an option of the goal selector or
  editing a duration field, and the server confirming a goal's completion.
\<close>

datatype event =
    Start int
  | Pause
  | Reset
  | Tick int
  | Timeout nat int
  | GoalChange nat
  | WorkMinutesChange string
  | BreakMinutesChange string
  | GoalCompleted string

fun step :: "event \<Rightarrow> state \<Rightarrow> state" where
  "step (Start now) s = startTimer now s"
| "step Pause s = pauseTimer s"
| "step Reset s = resetTimer s"
| "step (Tick now) s = (if intervals s = 0 then s else countdown now s)"
| "step (Timeout k now) s =
     (if k < length (timeouts s)
      then startTimer now (s\<lparr>timeouts := take k (timeouts s) @ drop (Suc k) (timeouts s)\<rparr>)
      else s)"
| "step (GoalChange i) s =
     (if i < length (goalSelect_options s)
      then updateCurrentGoalDisplay (s\<lparr>goalSelect_selectedIndex := int i\<rparr>)
      else s)"
| "step (WorkMinutesChange v) s = initTimer (s\<lparr>workMinutesInput_value := v\<rparr>)"
| "step (BreakMinutesChange v) s = initTimer (s\<lparr>breakMinutesInput_value := v\<rparr>)"
| "step (GoalCompleted g) s = goalCompleted g s"

definition run :: "event list \<Rightarrow> state \<Rightarrow> state" where
  "run es s = fold step es s"

text \<open>
  The module's variables as the script initialises them, on a page given by its fields.
  \<open>timeLeft\<close> has no initialiser; \<open>initTimer\<close> assigns it during page load before
  anything reads it, so the value written here is never observed.  The controls start
  as a timer page renders them (start enabled, pause disabled); every handler writes
  the controls it leaves behind, and no property below rests on their first values.
\<close>

record page =
  pg_workMinutes :: string
  pg_breakMinutes :: string
  pg_options :: "goal_option list"
  pg_selectedIndex :: int
  pg_userId :: "string option"
  pg_utcOffset :: int
  pg_localStorage :: "(string \<times> json_session list) list"
  pg_quotaExceeded :: bool

definition scriptLoaded :: "page \<Rightarrow> state" where
  "scriptLoaded p =
     \<lparr>timer_live = False, intervals = 0, timeouts = [], timeLeft = 0,
      isRunning = False, isPaused = False, isWorkTime = True,
      workMinutes = 25, breakMinutes = 5, sessionsCompleted = 0,
      startTime = None, sessions = [], autoStartTimer = False,
      currentPomodoroCount = 0, totalPomodoros = 1,
      statusText = PageText, startBtn_disabled = False, startBtn_text = ''Start'',
      pauseBtn_disabled = True,
      workMinutesInput_value = pg_workMinutes p, workMinutesInput_disabled = False,
      breakMinutesInput_value = pg_breakMinutes p, breakMinutesInput_disabled = False,
      goalSelect_options = pg_options p, goalSelect_selectedIndex = pg_selectedIndex p,
      goalSelect_disabled = False, userId = pg_userId p, utcOffset = pg_utcOffset p,
      localStorage = pg_localStorage p, quotaExceeded = pg_quotaExceeded p,
      requests = []\<rparr>"

definition pageLoaded :: "int \<Rightarrow> json_session list \<Rightarrow> query \<Rightarrow> page \<Rightarrow> state" where
  "pageLoaded now serverSessions q p = initTimerPage now serverSessions q (scriptLoaded p)"

section \<open>Invariants\<close>

text \<open>
  The bookkeeping of the countdown: a countdown is live exactly while the timer is
  running, it is the one \<open>timer\<close> refers to, and a timer that runs or is paused has a
  start time.
\<close>

definition started :: "state \<Rightarrow> bool" where
  "started s =
     (intervals s = (if isRunning s then 1 else 0) \<and> timer_live s = isRunning s \<and>
      (isRunning s \<or> isPaused s \<longrightarrow> startTime s \<noteq> None))"

text \<open>
  Three predicates used to state when \<open>currentPomodoroCount\<close> stays within
  \<open>totalPomodoros\<close>.  \<open>estimatesValid\<close>: no option of the goal selector carries a
  negative \<open>data-estimated-pomodoros\<close>, so that a bound goal has a target of at least one.
  \<open>beginsWork e s\<close>: the event \<open>e\<close> makes \<open>startTimer\<close> start or resume a work interval
  in \<open>s\<close>.  \<open>noRestart es s\<close>: along the events \<open>es\<close> from \<open>s\<close>, a work interval is only
  started or resumed while the counter is below the target.
\<close>

definition estimatesValid :: "goal_option list \<Rightarrow> bool" where
  "estimatesValid opts =
     list_all (\<lambda>x. case parseInt (toString (opt_estimated x)) of None \<Rightarrow> True | Some n \<Rightarrow> 0 \<le> n) opts"

definition beginsWork :: "event \<Rightarrow> state \<Rightarrow> bool" where
  "beginsWork e s =
     (isWorkTime s \<and> \<not> isRunning s \<and>
      (case e of Start now \<Rightarrow> True | Timeout k now \<Rightarrow> k < length (timeouts s) | _ \<Rightarrow> False))"

fun noRestart :: "event list \<Rightarrow> state \<Rightarrow> bool" where
  "noRestart [] s = True"
| "noRestart (e # es) s =
     ((beginsWork e s \<longrightarrow> currentPomodoroCount s < totalPomodoros s) \<and> noRestart es (step e s))"

text \<open>
  The invariant of the module: the counter is within the target, at most one countdown
  is live and it is the one \<open>timer\<close> refers to, a started timer has a start time, and a
  running work interval has a pomodoro left to count.
\<close>

definition consistent :: "state \<Rightarrow> bool" where
  "consistent s =
     (currentPomodoroCount s \<le> totalPomodoros s \<and> 1 \<le> totalPomodoros s \<and>
      intervals s = (if isRunning s then 1 else 0) \<and> timer_live s = isRunning s \<and>
      (isRunning s \<or> isPaused s \<longrightarrow> startTime s \<noteq> None) \<and>
      (isRunning s \<and> isWorkTime s \<longrightarrow> currentPomodoroCount s < totalPomodoros s) \<and>
      estimatesValid (goalSelect_options s))"

section \<open>A concrete page\<close>

text \<open>
  A page with one goal of three estimated pomodoros behind the placeholder option, loaded
  with one-minute work and break durations in the URL.  The closed instances of the
  theorems below are evaluated on it.
\<close>

definition examplePage :: page where
  "examplePage =
     \<lparr>pg_workMinutes = ''25'', pg_breakMinutes = ''5'',
      pg_options =
        [\<lparr>opt_value = '''', opt_text = ''-- Select a goal --'', opt_estimated = None\<rparr>,
         \<lparr>opt_value = ''7'', opt_text = ''Write report'', opt_estimated = Some ''3''\<rparr>],
      pg_selectedIndex = 0, pg_userId = Some ''42'', pg_utcOffset = 0,
      pg_localStorage = [], pg_quotaExceeded = False\<rparr>"

definition oneMinute :: query where
  "oneMinute = \<lparr>q_goalId = None, q_duration = Some ''1'', q_breakDuration = Some ''1'', q_autoStart = None\<rparr>"

definition ready :: state where
  "ready = pageLoaded 0 [] oneMinute examplePage"

text \<open>
  \<open>bound\<close> is the page after the user chose the goal, \<open>working\<close> the first work interval
  just started, \<open>resting\<close> the state after that interval has run out.  \<open>savedLog\<close> holds
  one session of today in memory and in the local cache, and \<open>reloaded\<close> is a fresh page
  load over that cache ten seconds later with no sessions from the server.  \<open>oldLog\<close>
  holds a session of a goal that is no longer in the selector and a session of the
  goal whose text has since been corrected.
\<close>

definition bound :: state where
  "bound = step (GoalChange 1) ready"

definition working :: state where
  "working = startTimer 0 bound"

definition resting :: state where
  "resting = run (Start 0 # replicate 60 (Tick 60000)) bound"

definition exampleSession :: session where
  "exampleSession =
     \<lparr>ses_startTime = Some 1000, ses_endTime = 61000, duration = Some 60, isWorkSession = True,
      goalId = Some ''7'', goalText = Some (Text ''Write report''), pomodoroNumber = 1,
      ses_totalPomodoros = 3\<rparr>"

definition savedLog :: state where
  "savedLog = saveToLocalStorage (ready\<lparr>sessions := [exampleSession]\<rparr>)"

definition reloaded :: state where
  "reloaded = pageLoaded 70000 [] oneMinute (examplePage\<lparr>pg_localStorage := localStorage savedLog\<rparr>)"

definition oldLog :: state where
  "oldLog = ready\<lparr>sessions :=
     [exampleSession\<lparr>goalId := Some ''9'', goalText := Some (Text ''Learn Isabelle'')\<rparr>,
      exampleSession\<lparr>goalText := Some (Text ''Write reprot'')\<rparr>]\<rparr>"

section \<open>Properties\<close>

subsection \<open>The blocks of \<open>completeSession\<close> as record updates\<close>

lemma goalSelect_value_upd [simp]:
  "goalSelect_value (s\<lparr>currentPomodoroCount := c\<rparr>) = goalSelect_value s"
  by (simp add: goalSelect_value_def Let_def)

lemma goalSelect_value_index:
  "goalSelect_value s \<noteq> '''' \<Longrightarrow> 0 \<le> goalSelect_selectedIndex s"
  by (simp add: goalSelect_value_def Let_def split: if_splits)

lemma newSession_eq:
  "newSession now (s\<lparr>currentPomodoroCount := c\<rparr>) =
     \<lparr>ses_startTime = startTime s, ses_endTime = now,
      duration = map_option (\<lambda>t. (now - t) div 1000) (startTime s),
      isWorkSession = True,
      goalId = (if goalSelect_value s = '''' then None else Some (goalSelect_value s)),
      goalText = (if goalSelect_value s = '''' then None
                  else Some (Text (opt_text (goalSelect_options s ! nat (goalSelect_selectedIndex s))))),
      pomodoroNumber = c, ses_totalPomodoros = totalPomodoros s\<rparr>"
  by (auto simp add: newSession_def Let_def goalSelect_value_index split: option.splits)

lemma saveToLocalStorage_frame: "\<exists>ls. saveToLocalStorage s = s\<lparr>localStorage := ls\<rparr>"
proof (cases "stringify (sessions s)")
  case (Inl e)
  then have "saveToLocalStorage s = s\<lparr>localStorage := localStorage s\<rparr>"
    by (simp add: saveToLocalStorage_def)
  then show ?thesis ..
next
  case (Inr js)
  show ?thesis
  proof (cases "quotaExceeded s")
    case True
    with Inr have "saveToLocalStorage s = s\<lparr>localStorage := localStorage s\<rparr>"
      by (simp add: saveToLocalStorage_def)
    then show ?thesis ..
  next
    case False
    with Inr have "saveToLocalStorage s =
        s\<lparr>localStorage := AList.update (storageKey (userId s)) js (localStorage s)\<rparr>"
      by (simp add: saveToLocalStorage_def)
    then show ?thesis ..
  qed
qed

lemma completeSession_work:
  assumes "isWorkTime s"
  shows "\<exists>ls. completeSession now s =
    (case startTime s of
       None \<Rightarrow>
         s\<lparr>currentPomodoroCount := currentPomodoroCount s + 1,
           sessions := sessions s @ [newSession now (s\<lparr>currentPomodoroCount := currentPomodoroCount s + 1\<rparr>)],
           localStorage := ls\<rparr>
     | Some t0 \<Rightarrow>
         (if totalPomodoros s \<le> currentPomodoroCount s + 1
          then taskCompleted (if goalSelect_value s = '''' then None else Some (goalSelect_value s))
          else switchToBreak)
           (s\<lparr>currentPomodoroCount := currentPomodoroCount s + 1,
              sessions := sessions s @ [newSession now (s\<lparr>currentPomodoroCount := currentPomodoroCount s + 1\<rparr>)],
              localStorage := ls,
              requests := requests s @
                [PostPomodoro (if goalSelect_value s = '''' then None else Some (goalSelect_value s))
                   (toISOString t0) (toISOString now) (currentPomodoroCount s + 1) (totalPomodoros s)]\<rparr>))"
proof -
  let ?x = "newSession now (s\<lparr>currentPomodoroCount := currentPomodoroCount s + 1\<rparr>)"
  obtain ls where ls: "saveToLocalStorage
      (s\<lparr>currentPomodoroCount := currentPomodoroCount s + 1, sessions := sessions s @ [?x]\<rparr>) =
      s\<lparr>currentPomodoroCount := currentPomodoroCount s + 1, sessions := sessions s @ [?x],
        localStorage := ls\<rparr>"
    using saveToLocalStorage_frame by blast
  have x: "ses_startTime ?x = startTime s" "ses_endTime ?x = now"
    "pomodoroNumber ?x = currentPomodoroCount s + 1" "ses_totalPomodoros ?x = totalPomodoros s"
    "goalId ?x = (if goalSelect_value s = '''' then None else Some (goalSelect_value s))"
    by (simp_all add: newSession_eq)
  show ?thesis
  proof (cases "startTime s")
    case None
    with assms have "completeSession now s =
        s\<lparr>currentPomodoroCount := currentPomodoroCount s + 1, sessions := sessions s @ [?x],
          localStorage := ls\<rparr>"
      by (simp add: completeSession_def Let_def saveSession_def x ls)
    with None show ?thesis by auto
  next
    case (Some t0)
    with assms have "completeSession now s =
        (if totalPomodoros s \<le> currentPomodoroCount s + 1
          then taskCompleted (if goalSelect_value s = '''' then None else Some (goalSelect_value s))
          else switchToBreak)
           (s\<lparr>currentPomodoroCount := currentPomodoroCount s + 1,
              sessions := sessions s @ [?x],
              localStorage := ls,
              requests := requests s @
                [PostPomodoro (if goalSelect_value s = '''' then None else Some (goalSelect_value s))
                   (toISOString t0) (toISOString now) (currentPomodoroCount s + 1) (totalPomodoros s)]\<rparr>)"
      by (simp add: completeSession_def Let_def saveSession_def x ls)
    with Some show ?thesis by auto
  qed
qed

lemma taskCompleted_eq:
  "taskCompleted gid s =
     s\<lparr>isWorkTime := True, timeLeft := workMinutes s * 60, isRunning := False,
       statusText := TaskCompletedText, startBtn_disabled := False, pauseBtn_disabled := True,
       workMinutesInput_disabled := False, breakMinutesInput_disabled := False,
       goalSelect_disabled := False,
       requests := requests s @ (case gid of None \<Rightarrow> [] | Some g \<Rightarrow> [PostGoalComplete g])\<rparr>"
  by (simp add: taskCompleted_def markGoalAsCompleted_def Let_def split: option.splits)

lemma switchToBreak_eq:
  "switchToBreak s =
     s\<lparr>isWorkTime := False, timeLeft := breakMinutes s * 60, isRunning := False,
       statusText := BreakTimeText,
       intervals := (if timer_live s then intervals s - 1 else intervals s),
       timer_live := False, timeouts := timeouts s @ [300]\<rparr>"
  by (simp add: switchToBreak_def clearInterval_def setTimeout_def Let_def)

lemma breakCompleted_eq:
  "breakCompleted s =
     (if currentPomodoroCount s < totalPomodoros s
      then s\<lparr>isWorkTime := True, timeLeft := workMinutes s * 60, isRunning := False,
             statusText := ReadyForText (currentPomodoroCount s + 1) (totalPomodoros s),
             startBtn_disabled := False, pauseBtn_disabled := True,
             timeouts := timeouts s @ [1500]\<rparr>
      else s\<lparr>isWorkTime := True, timeLeft := workMinutes s * 60, isRunning := False,
             statusText := ReadyForText (currentPomodoroCount s + 1) (totalPomodoros s),
             startBtn_disabled := False, pauseBtn_disabled := True,
             workMinutesInput_disabled := False, breakMinutesInput_disabled := False,
             goalSelect_disabled := False\<rparr>)"
  by (simp add: breakCompleted_def setTimeout_def Let_def)

lemma completeSession_sessions:
  "sessions (completeSession now s) =
     (if isWorkTime s
      then sessions s @ [newSession now (s\<lparr>currentPomodoroCount := currentPomodoroCount s + 1\<rparr>)]
      else sessions s)"
proof (cases "isWorkTime s")
  case True
  from completeSession_work [OF True, of now] obtain ls where
    "completeSession now s =
    (case startTime s of
       None \<Rightarrow>
         s\<lparr>currentPomodoroCount := currentPomodoroCount s + 1,
           sessions := sessions s @ [newSession now (s\<lparr>currentPomodoroCount := currentPomodoroCount s + 1\<rparr>)],
           localStorage := ls\<rparr>
     | Some t0 \<Rightarrow>
         (if totalPomodoros s \<le> currentPomodoroCount s + 1
          then taskCompleted (if goalSelect_value s = '''' then None else Some (goalSelect_value s))
          else switchToBreak)
           (s\<lparr>currentPomodoroCount := currentPomodoroCount s + 1,
              sessions := sessions s @ [newSession now (s\<lparr>currentPomodoroCount := currentPomodoroCount s + 1\<rparr>)],
              localStorage := ls,
              requests := requests s @
                [PostPomodoro (if goalSelect_value s = '''' then None else Some (goalSelect_value s))
                   (toISOString t0) (toISOString now) (currentPomodoroCount s + 1) (totalPomodoros s)]\<rparr>))"
    by blast
  with True show ?thesis
    by (simp add: taskCompleted_eq switchToBreak_eq split: option.splits)
next
  case False
  then show ?thesis
    by (simp add: completeSession_def breakCompleted_eq)
qed

lemma initTimer_eq:
  "initTimer s =
     s\<lparr>workMinutes := orDefault (parseInt (workMinutesInput_value s)) 25,
       breakMinutes := orDefault (parseInt (breakMinutesInput_value s)) 5,
       timeLeft := orDefault (parseInt (workMinutesInput_value s)) 25 * 60\<rparr>"
  by (simp add: initTimer_def Let_def)

lemma updateCurrentGoalDisplay_eq:
  "updateCurrentGoalDisplay s =
     s\<lparr>currentPomodoroCount := 0,
       totalPomodoros :=
         (if goalSelect_value s \<noteq> ''''
          then orDefault (parseInt (toString (opt_estimated
                 (goalSelect_options s ! nat (goalSelect_selectedIndex s))))) 1
          else 1)\<rparr>"
  by (simp add: updateCurrentGoalDisplay_def Let_def)

lemma startTimer_idle_eq:
  "\<not> isRunning s \<Longrightarrow> \<not> isPaused s \<Longrightarrow>
   startTimer now s =
     s\<lparr>startTime := Some now, isRunning := True,
       statusText := (if isWorkTime s then WorkTimeText (currentPomodoroCount s + 1) (totalPomodoros s)
                      else BreakTimeText),
       startBtn_disabled := True, pauseBtn_disabled := False,
       workMinutesInput_disabled := True, breakMinutesInput_disabled := True,
       goalSelect_disabled := True, intervals := Suc (intervals s), timer_live := True\<rparr>"
  by (simp add: startTimer_def setInterval_def Let_def)

subsection \<open>Countdowns\<close>

lemma run_Nil [simp]: "run [] s = s"
  by (simp add: run_def)

lemma run_Cons [simp]: "run (e # es) s = run es (step e s)"
  by (simp add: run_def)

lemma run_append [simp]: "run (es @ fs) s = run fs (run es s)"
  by (simp add: run_def)

lemma ticks_count_down:
  "0 < intervals s \<Longrightarrow> int (length ts) < timeLeft s \<Longrightarrow>
   run (map Tick ts) s = s\<lparr>timeLeft := timeLeft s - int (length ts)\<rparr>"
proof (induction ts arbitrary: s)
  case Nil
  then show ?case by simp
next
  case (Cons t ts)
  let ?s = "s\<lparr>timeLeft := timeLeft s - 1\<rparr>"
  from Cons.prems have "step (Tick t) s = ?s"
    by (simp add: countdown_def Let_def)
  moreover from Cons.prems have "run (map Tick ts) ?s = ?s\<lparr>timeLeft := timeLeft ?s - int (length ts)\<rparr>"
    by (intro Cons.IH) simp_all
  ultimately show ?case
    by (simp add: algebra_simps)
qed

text \<open>A countdown of \<open>timeLeft\<close> ticks ends in \<open>completeSession\<close> at the last tick.\<close>

lemma ticks_complete:
  assumes "0 < intervals s" and "0 < timeLeft s" and "int (length ts) = timeLeft s"
  shows "run (map Tick ts) s = completeSession (last ts) (clearInterval (s\<lparr>timeLeft := 0\<rparr>))"
proof -
  from assms have "ts \<noteq> []" by auto
  then obtain us t where ts: "ts = us @ [t]"
    by (metis rev_exhaust)
  with assms have "run (map Tick us) s = s\<lparr>timeLeft := 1\<rparr>"
    by (simp add: ticks_count_down)
  with assms ts show ?thesis
    by (simp add: countdown_def Let_def)
qed

text \<open>One whole interval: a fresh start and the countdown down to zero.\<close>

lemma run_interval:
  assumes "\<not> isRunning s" and "\<not> isPaused s" and "0 < timeLeft s"
    and "int (length ts) = timeLeft s"
  shows "run (Start t0 # map Tick ts) s =
    completeSession (last ts)
      (s\<lparr>startTime := Some t0, isRunning := True,
         statusText := (if isWorkTime s then WorkTimeText (currentPomodoroCount s + 1) (totalPomodoros s)
                        else BreakTimeText),
         startBtn_disabled := True, pauseBtn_disabled := False,
         workMinutesInput_disabled := True, breakMinutesInput_disabled := True,
         goalSelect_disabled := True, timeLeft := 0, timer_live := False\<rparr>)"
proof -
  let ?s = "startTimer t0 s"
  from assms have "0 < intervals ?s" "0 < timeLeft ?s" "int (length ts) = timeLeft ?s"
    by (simp_all add: startTimer_idle_eq)
  then have "run (map Tick ts) ?s = completeSession (last ts) (clearInterval (?s\<lparr>timeLeft := 0\<rparr>))"
    by (rule ticks_complete)
  with assms show ?thesis
    by (simp add: startTimer_idle_eq clearInterval_def)
qed

subsection \<open>A live countdown has a start time\<close>

text \<open>
  \<open>completeSession\<close> reads \<open>startTime\<close>.  The statements below about a completed work
  interval take it to be set; that is so in every state in which a tick can fire.
\<close>

text \<open>Loading the cache and matching the goals write \<open>sessions\<close> only.\<close>

lemma loadSessions_frame: "\<exists>xs. loadSessions now s = s\<lparr>sessions := xs\<rparr>"
proof -
  have "loadSessions now s = s\<lparr>sessions := sessions (loadSessions now s)\<rparr>"
    by (simp add: loadSessions_def allSessions_def split: option.splits)
  then show ?thesis ..
qed

lemma matchGoalIdsWithDropdown_frame: "\<exists>xs. matchGoalIdsWithDropdown s = s\<lparr>sessions := xs\<rparr>"
proof -
  have "matchGoalIdsWithDropdown s = s\<lparr>sessions := sessions (matchGoalIdsWithDropdown s)\<rparr>"
    by (simp add: matchGoalIdsWithDropdown_def)
  then show ?thesis ..
qed

lemma started_startTimer: "started s \<Longrightarrow> started (startTimer now s)"
  by (auto simp add: started_def startTimer_def setInterval_def Let_def)

lemma started_pauseTimer: "started s \<Longrightarrow> started (pauseTimer s)"
  by (auto simp add: started_def pauseTimer_def clearInterval_def Let_def)

lemma started_resetTimer: "started s \<Longrightarrow> started (resetTimer s)"
  by (auto simp add: started_def resetTimer_def clearInterval_def initTimer_eq Let_def)

lemma started_completeSession:
  assumes "isRunning s" and "startTime s \<noteq> None" and "\<not> timer_live s" and "intervals s = 0"
  shows "started (completeSession now s)"
proof (cases "isWorkTime s")
  case True
  from assms(2) obtain t0 where t0: "startTime s = Some t0"
    by auto
  with completeSession_work [OF True, of now] obtain ls where
    "completeSession now s =
         (if totalPomodoros s \<le> currentPomodoroCount s + 1
          then taskCompleted (if goalSelect_value s = '''' then None else Some (goalSelect_value s))
          else switchToBreak)
           (s\<lparr>currentPomodoroCount := currentPomodoroCount s + 1,
              sessions := sessions s @ [newSession now (s\<lparr>currentPomodoroCount := currentPomodoroCount s + 1\<rparr>)],
              localStorage := ls,
              requests := requests s @
                [PostPomodoro (if goalSelect_value s = '''' then None else Some (goalSelect_value s))
                   (toISOString t0) (toISOString now) (currentPomodoroCount s + 1) (totalPomodoros s)]\<rparr>)"
    by auto
  with assms t0 show ?thesis
    by (simp add: started_def taskCompleted_eq switchToBreak_eq)
next
  case False
  with assms show ?thesis
    by (simp add: started_def completeSession_def breakCompleted_eq)
qed

lemma started_tick: "started s \<Longrightarrow> started (step (Tick now) s)"
proof (cases "intervals s = 0 \<or> 0 < timeLeft s - 1")
  case True
  assume "started s"
  with True show ?thesis
    by (auto simp add: countdown_def Let_def started_def)
next
  case False
  assume c: "started s"
  with False have run: "isRunning s" "timer_live s" "startTime s \<noteq> None"
    by (auto simp add: started_def split: if_splits)
  let ?s = "s\<lparr>timeLeft := timeLeft s - 1, intervals := intervals s - 1, timer_live := False\<rparr>"
  from False run have "step (Tick now) s = completeSession now ?s"
    by (simp add: countdown_def clearInterval_def Let_def)
  moreover have "started (completeSession now ?s)"
    using c run by (intro started_completeSession) (auto simp add: started_def)
  ultimately show ?thesis by simp
qed

lemma started_goalBinding: "started s \<Longrightarrow> started (updateCurrentGoalDisplay s)"
  by (simp add: started_def updateCurrentGoalDisplay_eq)

lemma started_step:
  assumes "started s"
  shows "started (step e s)"
proof (cases e)
  case (Start now)
  with assms show ?thesis by (simp add: started_startTimer)
next
  case Pause
  with assms show ?thesis by (simp add: started_pauseTimer)
next
  case Reset
  with assms show ?thesis by (simp add: started_resetTimer)
next
  case (Tick now)
  with assms show ?thesis by (simp only: started_tick)
next
  case (Timeout k now)
  from assms have "started (s\<lparr>timeouts := take k (timeouts s) @ drop (Suc k) (timeouts s)\<rparr>)"
    by (simp add: started_def)
  with assms Timeout show ?thesis
    by (simp add: started_startTimer)
next
  case (GoalChange i)
  from assms have "started (s\<lparr>goalSelect_selectedIndex := int i\<rparr>)"
    by (simp add: started_def)
  with assms GoalChange show ?thesis
    by (simp add: started_goalBinding)
next
  case (WorkMinutesChange v)
  with assms show ?thesis by (simp add: started_def initTimer_eq)
next
  case (BreakMinutesChange v)
  with assms show ?thesis by (simp add: started_def initTimer_eq)
next
  case (GoalCompleted g)
  from assms have "started (setGoalSelectValue []
      (s\<lparr>goalSelect_options := removeOption g (goalSelect_options s)\<rparr>))"
    by (simp add: started_def setGoalSelectValue_def)
  with GoalCompleted show ?thesis
    by (simp add: goalCompleted_def Let_def started_goalBinding)
qed

lemma started_run: "started s \<Longrightarrow> started (run es s)"
  by (induction es arbitrary: s) (simp_all add: started_step)

lemma started_initFromUrlParams:
  assumes "started s"
  shows "started (initFromUrlParams q s)"
proof -
  define s1 where "s1 =
    (if truthy (p_goalId (getUrlParams q))
     then updateCurrentGoalDisplay (setGoalSelectValue (toString (p_goalId (getUrlParams q))) s)
     else s\<lparr>totalPomodoros := 1\<rparr>)"
  have "started (setGoalSelectValue v s)" for v
    using assms by (simp add: started_def setGoalSelectValue_def)
  then have "started (updateCurrentGoalDisplay (setGoalSelectValue v s))" for v
    by (rule started_goalBinding)
  moreover have "started (s\<lparr>totalPomodoros := 1\<rparr>)"
    using assms by (simp add: started_def)
  ultimately have s1: "started s1"
    by (simp add: s1_def)
  let ?p = "getUrlParams q"
  let ?w = "if p_duration ?p \<noteq> 0 then showInt (p_duration ?p) else workMinutesInput_value s1"
  let ?b = "if p_breakDuration ?p \<noteq> 0 then showInt (p_breakDuration ?p) else breakMinutesInput_value s1"
  let ?i = "initTimer (s1\<lparr>workMinutesInput_value := ?w, breakMinutesInput_value := ?b,
                    autoStartTimer := p_autoStart ?p\<rparr>)"
  have "initFromUrlParams q s = ?i\<lparr>timeouts := (if p_autoStart ?p then timeouts ?i @ [500] else timeouts ?i)\<rparr>"
    by (simp add: initFromUrlParams_def Let_def setTimeout_def initTimer_eq flip: s1_def)
  with s1 show ?thesis
    by (simp add: started_def initTimer_eq)
qed

lemma started_pageLoaded: "started (pageLoaded now serverSessions q p)"
proof -
  define s1 where "s1 =
    (if serverSessions \<noteq> []
     then (scriptLoaded p)\<lparr>sessions := map (revive ''No goal selected'') serverSessions\<rparr>
     else scriptLoaded p)"
  have "started s1"
    by (simp add: s1_def started_def scriptLoaded_def)
  then have s2: "started (initFromUrlParams q s1)"
    by (rule started_initFromUrlParams)
  obtain xs where xs: "loadSessions now (initFromUrlParams q s1) = (initFromUrlParams q s1)\<lparr>sessions := xs\<rparr>"
    using loadSessions_frame by blast
  obtain ys where ys: "matchGoalIdsWithDropdown ((initFromUrlParams q s1)\<lparr>sessions := xs\<rparr>) =
      (initFromUrlParams q s1)\<lparr>sessions := xs, sessions := ys\<rparr>"
    using matchGoalIdsWithDropdown_frame [of "(initFromUrlParams q s1)\<lparr>sessions := xs\<rparr>"] by auto
  have "pageLoaded now serverSessions q p =
      matchGoalIdsWithDropdown (loadSessions now (initFromUrlParams q s1))"
    by (simp add: pageLoaded_def initTimerPage_def allSessions_def Let_def s1_def)
  with xs ys s2 show ?thesis
    by (simp add: started_def)
qed

text \<open>
  In every state a loaded page can reach, a tick finds \<open>startTime\<close> set: the countdown is
  live only while the timer is running, and a running timer was started.
\<close>

lemma live_countdown_started:
  "intervals (run es (pageLoaded now serverSessions q p)) \<noteq> 0 \<Longrightarrow>
   isRunning (run es (pageLoaded now serverSessions q p)) \<and>
   startTime (run es (pageLoaded now serverSessions q p)) \<noteq> None"
  using started_run [OF started_pageLoaded, of es now serverSessions q p]
  by (auto simp add: started_def split: if_splits)

subsection \<open>Starting, pausing and resetting\<close>

text \<open>
  Claim C3.  Calling \<open>startTimer\<close> while the timer is running changes nothing: the
  state returned is the state given, so \<open>timeLeft\<close>, \<open>startTime\<close> and every other
  variable are as before, and the number of live countdowns is as before.
\<close>

theorem startTimer_running_noop: "isRunning s \<Longrightarrow> startTimer now s = s"
  by (simp add: startTimer_def)

text \<open>The instance on the example page, started at time 1000 and started again at 2000.\<close>

theorem startTimer_running_noop_witness:
  "isRunning (startTimer 1000 ready) \<and>
   startTimer 2000 (startTimer 1000 ready) = startTimer 1000 ready \<and>
   timeLeft (startTimer 2000 (startTimer 1000 ready)) = 60 \<and>
   startTime (startTimer 2000 (startTimer 1000 ready)) = Some 1000 \<and>
   intervals (startTimer 2000 (startTimer 1000 ready)) = 1"
proof -
  have running: "isRunning (startTimer 1000 ready)"
    by code_simp
  have "timeLeft (startTimer 1000 ready) = 60" "startTime (startTimer 1000 ready) = Some 1000"
       "intervals (startTimer 1000 ready) = 1"
    by code_simp+
  with running startTimer_running_noop [OF running, of 2000] show ?thesis
    by simp
qed

text \<open>
  Claim C4.  From the idle state (neither running nor paused) \<open>startTimer\<close> records the
  current time as \<open>startTime\<close> and the timer runs; from the paused state it clears
  \<open>isPaused\<close>, leaves \<open>startTime\<close> as it was and the timer runs.  Either way one
  countdown is begun.
\<close>

theorem startTimer_idle_paused:
  "(\<not> isRunning s \<and> \<not> isPaused s \<longrightarrow>
      startTime (startTimer now s) = Some now \<and> isRunning (startTimer now s) \<and>
      \<not> isPaused (startTimer now s) \<and> intervals (startTimer now s) = Suc (intervals s)) \<and>
   (\<not> isRunning s \<and> isPaused s \<longrightarrow>
      startTime (startTimer now s) = startTime s \<and> isRunning (startTimer now s) \<and>
      \<not> isPaused (startTimer now s) \<and> intervals (startTimer now s) = Suc (intervals s))"
  by (simp add: startTimer_def setInterval_def Let_def)

text \<open>The instances on the example page: a fresh start, and a resume after a pause.\<close>

theorem startTimer_idle_paused_witness:
  "(\<not> isRunning ready \<and> \<not> isPaused ready) \<and>
   startTime (startTimer 1000 ready) = Some 1000 \<and> isRunning (startTimer 1000 ready) \<and>
   (\<not> isRunning (pauseTimer (startTimer 1000 ready)) \<and> isPaused (pauseTimer (startTimer 1000 ready))) \<and>
   startTime (startTimer 5000 (pauseTimer (startTimer 1000 ready))) = Some 1000 \<and>
   isRunning (startTimer 5000 (pauseTimer (startTimer 1000 ready))) \<and>
   \<not> isPaused (startTimer 5000 (pauseTimer (startTimer 1000 ready)))"
proof -
  have idle: "\<not> isRunning ready \<and> \<not> isPaused ready"
    by code_simp
  have paused: "\<not> isRunning (pauseTimer (startTimer 1000 ready)) \<and> isPaused (pauseTimer (startTimer 1000 ready))"
    by code_simp
  have st: "startTime (pauseTimer (startTimer 1000 ready)) = Some 1000"
    by code_simp
  from idle paused st startTimer_idle_paused [of ready 1000]
    startTimer_idle_paused [of "pauseTimer (startTimer 1000 ready)" 5000]
  show ?thesis by simp
qed

text \<open>The frame of \<open>resetTimer\<close>.\<close>

lemma sessions_initTimer: "sessions (initTimer s) = sessions s"
  by (simp add: initTimer_def Let_def)

lemma sessions_clearInterval: "sessions (clearInterval s) = sessions s"
  by (simp add: clearInterval_def)

text \<open>
  Claim C10.  \<open>resetTimer\<close> never modifies the session log: the \<open>sessions\<close> array
  after the call is the array before it, whatever the state.
\<close>

theorem resetTimer_keeps_sessions: "sessions (resetTimer s) = sessions s"
  by (simp add: resetTimer_def Let_def sessions_initTimer sessions_clearInterval)

subsection \<open>Duration defaults\<close>

text \<open>
  Claim C9.  When a duration field parses to \<open>0\<close> or does not parse, \<open>initTimer\<close>
  takes 25 minutes of work and 5 minutes of break, and \<open>getUrlParams\<close> does the same for
  the \<open>duration\<close> and \<open>breakDuration\<close> parameters.  Both functions return their
  result in every case: there is no error to surface.
\<close>

theorem duration_defaults:
  "(parseInt (workMinutesInput_value s) = None \<or> parseInt (workMinutesInput_value s) = Some 0 \<longrightarrow>
      workMinutes (initTimer s) = 25 \<and> timeLeft (initTimer s) = 25 * 60) \<and>
   (parseInt (breakMinutesInput_value s) = None \<or> parseInt (breakMinutesInput_value s) = Some 0 \<longrightarrow>
      breakMinutes (initTimer s) = 5) \<and>
   (parseInt (toString (q_duration q)) = None \<or> parseInt (toString (q_duration q)) = Some 0 \<longrightarrow>
      p_duration (getUrlParams q) = 25) \<and>
   (parseInt (toString (q_breakDuration q)) = None \<or> parseInt (toString (q_breakDuration q)) = Some 0 \<longrightarrow>
      p_breakDuration (getUrlParams q) = 5)"
  by (auto simp add: initTimer_def getUrlParams_def orDefault_def Let_def)

text \<open>
  The instance with the fields \<open>abc\<close> and \<open>0\<close>, an absent \<open>duration\<close> parameter
  and the \<open>breakDuration\<close> parameter \<open>five\<close>.
\<close>

theorem duration_defaults_witness:
  "parseInt (workMinutesInput_value (ready\<lparr>workMinutesInput_value := ''abc'', breakMinutesInput_value := ''0''\<rparr>)) = None \<and>
   parseInt (breakMinutesInput_value (ready\<lparr>workMinutesInput_value := ''abc'', breakMinutesInput_value := ''0''\<rparr>)) = Some 0 \<and>
   parseInt (toString (q_duration (oneMinute\<lparr>q_duration := None, q_breakDuration := Some ''five''\<rparr>))) = None \<and>
   parseInt (toString (q_breakDuration (oneMinute\<lparr>q_duration := None, q_breakDuration := Some ''five''\<rparr>))) = None \<and>
   workMinutes (initTimer (ready\<lparr>workMinutesInput_value := ''abc'', breakMinutesInput_value := ''0''\<rparr>)) = 25 \<and>
   timeLeft (initTimer (ready\<lparr>workMinutesInput_value := ''abc'', breakMinutesInput_value := ''0''\<rparr>)) = 1500 \<and>
   breakMinutes (initTimer (ready\<lparr>workMinutesInput_value := ''abc'', breakMinutesInput_value := ''0''\<rparr>)) = 5 \<and>
   p_duration (getUrlParams (oneMinute\<lparr>q_duration := None, q_breakDuration := Some ''five''\<rparr>)) = 25 \<and>
   p_breakDuration (getUrlParams (oneMinute\<lparr>q_duration := None, q_breakDuration := Some ''five''\<rparr>)) = 5"
proof -
  have w: "parseInt (workMinutesInput_value (ready\<lparr>workMinutesInput_value := ''abc'', breakMinutesInput_value := ''0''\<rparr>)) = None"
    by code_simp
  have b: "parseInt (breakMinutesInput_value (ready\<lparr>workMinutesInput_value := ''abc'', breakMinutesInput_value := ''0''\<rparr>)) = Some 0"
    by code_simp
  have d: "parseInt (toString (q_duration (oneMinute\<lparr>q_duration := None, q_breakDuration := Some ''five''\<rparr>))) = None"
    by code_simp
  have e: "parseInt (toString (q_breakDuration (oneMinute\<lparr>q_duration := None, q_breakDuration := Some ''five''\<rparr>))) = None"
    by code_simp
  from w b d e
    duration_defaults [of "ready\<lparr>workMinutesInput_value := ''abc'', breakMinutesInput_value := ''0''\<rparr>"
      "oneMinute\<lparr>q_duration := None, q_breakDuration := Some ''five''\<rparr>"]
  show ?thesis by simp
qed

subsection \<open>Session records\<close>

text \<open>
  Claim C6.  Completing a work interval appends exactly one record to \<open>sessions\<close>: its
  duration is the whole number of seconds from \<open>startTime\<close> to the end time, its goal id
  and text are those of the option selected at that moment, and both are absent when the
  selector has no bound option.  Completing a break leaves \<open>sessions\<close> as it is.  A tick
  of the countdown appends a record exactly when it is the last tick of a work interval.
\<close>

theorem completeSession_record:
  "(isWorkTime s \<longrightarrow>
      sessions (completeSession now s) = sessions s @
        [\<lparr>ses_startTime = startTime s, ses_endTime = now,
          duration = map_option (\<lambda>t. (now - t) div 1000) (startTime s),
          isWorkSession = True,
          goalId = (if goalSelect_value s = '''' then None else Some (goalSelect_value s)),
          goalText = (if goalSelect_value s = '''' then None
                      else Some (Text (opt_text (goalSelect_options s ! nat (goalSelect_selectedIndex s))))),
          pomodoroNumber = currentPomodoroCount s + 1,
          ses_totalPomodoros = totalPomodoros s\<rparr>]) \<and>
   (\<not> isWorkTime s \<longrightarrow> sessions (completeSession now s) = sessions s) \<and>
   length (sessions (countdown now s)) =
     length (sessions s) + (if timeLeft s \<le> 1 \<and> isWorkTime s then 1 else 0)"
  by (simp add: completeSession_sessions newSession_eq countdown_def clearInterval_def Let_def)

text \<open>The instances on the example page: the end of the first work interval, and of the break.\<close>

theorem completeSession_record_witness:
  "isWorkTime working \<and> \<not> isWorkTime resting \<and>
   sessions (completeSession 60000 working) =
     [\<lparr>ses_startTime = Some 0, ses_endTime = 60000, duration = Some 60, isWorkSession = True,
       goalId = Some ''7'', goalText = Some (Text ''Write report''), pomodoroNumber = 1,
       ses_totalPomodoros = 3\<rparr>] \<and>
   sessions (completeSession 120300 resting) = sessions resting \<and>
   length (sessions resting) = 1"
proof -
  have a: "isWorkTime working" "\<not> isWorkTime resting"
    by code_simp+
  have b: "sessions working = []" "startTime working = Some 0" "goalSelect_value working = ''7''"
    "opt_text (goalSelect_options working ! nat (goalSelect_selectedIndex working)) = ''Write report''"
    "currentPomodoroCount working = 0" "totalPomodoros working = 3"
    "length (sessions resting) = 1"
    by code_simp+
  from a b completeSession_record [of working 60000] completeSession_record [of resting 120300]
  show ?thesis
    by simp
qed

subsection \<open>The last pomodoro of a goal\<close>

lemma terminal_facts:
  assumes "isWorkTime s" and "startTime s = Some t0"
    and "currentPomodoroCount s + 1 = totalPomodoros s"
  shows "isWorkTime (completeSession now s) \<and> \<not> isRunning (completeSession now s) \<and>
    timeLeft (completeSession now s) = workMinutes s * 60 \<and>
    currentPomodoroCount (completeSession now s) = totalPomodoros (completeSession now s) \<and>
    currentPomodoroCount (completeSession now s) = currentPomodoroCount s + 1 \<and>
    \<not> workMinutesInput_disabled (completeSession now s) \<and>
    \<not> breakMinutesInput_disabled (completeSession now s) \<and>
    \<not> goalSelect_disabled (completeSession now s) \<and>
    \<not> startBtn_disabled (completeSession now s) \<and>
    timeouts (completeSession now s) = timeouts s \<and>
    intervals (completeSession now s) = intervals s \<and>
    requests (completeSession now s) =
      requests s @
      [PostPomodoro (if goalSelect_value s = '''' then None else Some (goalSelect_value s))
         (toISOString t0) (toISOString now) (currentPomodoroCount s + 1) (totalPomodoros s)] @
      (if goalSelect_value s = '''' then [] else [PostGoalComplete (goalSelect_value s)])"
proof -
  from completeSession_work [OF assms(1), of now] assms(2,3) obtain ls where
    "completeSession now s =
       taskCompleted (if goalSelect_value s = '''' then None else Some (goalSelect_value s))
         (s\<lparr>currentPomodoroCount := currentPomodoroCount s + 1,
            sessions := sessions s @ [newSession now (s\<lparr>currentPomodoroCount := currentPomodoroCount s + 1\<rparr>)],
            localStorage := ls,
            requests := requests s @
              [PostPomodoro (if goalSelect_value s = '''' then None else Some (goalSelect_value s))
                 (toISOString t0) (toISOString now) (currentPomodoroCount s + 1) (totalPomodoros s)]\<rparr>)"
    by auto
  with assms show ?thesis
    by (simp add: taskCompleted_eq)
qed

lemma unbound_run_terminal:
  fixes u :: state and t1 :: int and ts :: "int list"
  assumes "\<not> isRunning u" and "\<not> isPaused u" and "isWorkTime u" and "goalSelect_value u = ''''"
    and "currentPomodoroCount u = 0" and "totalPomodoros u = 1"
    and "0 < timeLeft u" and "int (length ts) = timeLeft u"
  defines "r \<equiv> run (Start t1 # map Tick ts) u"
  shows "isWorkTime r \<and> \<not> isRunning r \<and> currentPomodoroCount r = 1 \<and> totalPomodoros r = 1 \<and>
    \<not> workMinutesInput_disabled r \<and> \<not> breakMinutesInput_disabled r \<and>
    \<not> goalSelect_disabled r \<and> \<not> startBtn_disabled r \<and> timeouts r = timeouts u \<and>
    requests r = requests u @ [PostPomodoro None (toISOString t1) (toISOString (last ts)) 1 1]"
proof -
  let ?s = "u\<lparr>startTime := Some t1, isRunning := True,
         statusText := (if isWorkTime u then WorkTimeText (currentPomodoroCount u + 1) (totalPomodoros u)
                        else BreakTimeText),
         startBtn_disabled := True, pauseBtn_disabled := False,
         workMinutesInput_disabled := True, breakMinutesInput_disabled := True,
         goalSelect_disabled := True, timeLeft := 0, timer_live := False\<rparr>"
  have r: "r = completeSession (last ts) ?s"
    unfolding r_def using assms(1,2,7,8) by (rule run_interval)
  have "goalSelect_value ?s = goalSelect_value u"
    by (simp add: goalSelect_value_def Let_def)
  with assms(4) have v: "goalSelect_value ?s = ''''"
    by simp
  have "isWorkTime ?s" "startTime ?s = Some t1" "currentPomodoroCount ?s + 1 = totalPomodoros ?s"
    using assms(3,5,6) by simp_all
  from terminal_facts [OF this, of "last ts"] assms(5,6) show ?thesis
    unfolding r v by simp
qed

text \<open>
  Claim C5.  When a work interval completes and the incremented counter equals the
  target, the timer is back in the work phase and not running, the counter keeps its
  value, the duration fields, the goal selector and the start button are enabled, no
  timeout is scheduled, and the requests issued are the session and, when a goal is
  bound, the completion of that goal.  With no goal bound the target defaults to one
  (on unbinding and on page load), and one work interval run from the idle state ends
  in the same way with the session as the only request.  The first part takes the start
  time of the interval to be set, as \<open>live_countdown_started\<close> shows it is when a tick
  completes an interval.
\<close>

theorem terminal_completion:
  "(isWorkTime s \<and> startTime s = Some t0 \<and> currentPomodoroCount s + 1 = totalPomodoros s \<longrightarrow>
      isWorkTime (completeSession now s) \<and> \<not> isRunning (completeSession now s) \<and>
      timeLeft (completeSession now s) = workMinutes s * 60 \<and>
      currentPomodoroCount (completeSession now s) = totalPomodoros (completeSession now s) \<and>
      currentPomodoroCount (completeSession now s) = currentPomodoroCount s + 1 \<and>
      \<not> workMinutesInput_disabled (completeSession now s) \<and>
      \<not> breakMinutesInput_disabled (completeSession now s) \<and>
      \<not> goalSelect_disabled (completeSession now s) \<and>
      \<not> startBtn_disabled (completeSession now s) \<and>
      timeouts (completeSession now s) = timeouts s \<and>
      intervals (completeSession now s) = intervals s \<and>
      requests (completeSession now s) =
        requests s @
        [PostPomodoro (if goalSelect_value s = '''' then None else Some (goalSelect_value s))
           (toISOString t0) (toISOString now) (currentPomodoroCount s + 1) (totalPomodoros s)] @
        (if goalSelect_value s = '''' then [] else [PostGoalComplete (goalSelect_value s)])) \<and>
   (goalSelect_value v = '''' \<longrightarrow> totalPomodoros (updateCurrentGoalDisplay v) = 1) \<and>
   (\<not> truthy (q_goalId q) \<longrightarrow> totalPomodoros (initFromUrlParams q v) = 1) \<and>
   (\<not> isRunning u \<and> \<not> isPaused u \<and> isWorkTime u \<and> goalSelect_value u = '''' \<and>
    currentPomodoroCount u = 0 \<and> totalPomodoros u = 1 \<and>
    0 < timeLeft u \<and> int (length ts) = timeLeft u \<longrightarrow>
      isWorkTime (run (Start t1 # map Tick ts) u) \<and>
      \<not> isRunning (run (Start t1 # map Tick ts) u) \<and>
      currentPomodoroCount (run (Start t1 # map Tick ts) u) = 1 \<and>
      totalPomodoros (run (Start t1 # map Tick ts) u) = 1 \<and>
      \<not> workMinutesInput_disabled (run (Start t1 # map Tick ts) u) \<and>
      \<not> breakMinutesInput_disabled (run (Start t1 # map Tick ts) u) \<and>
      \<not> goalSelect_disabled (run (Start t1 # map Tick ts) u) \<and>
      \<not> startBtn_disabled (run (Start t1 # map Tick ts) u) \<and>
      timeouts (run (Start t1 # map Tick ts) u) = timeouts u \<and>
      requests (run (Start t1 # map Tick ts) u) =
        requests u @ [PostPomodoro None (toISOString t1) (toISOString (last ts)) 1 1])"
proof (intro conjI impI)
  assume "goalSelect_value v = ''''"
  then show "totalPomodoros (updateCurrentGoalDisplay v) = 1"
    by (simp add: updateCurrentGoalDisplay_eq)
next
  assume "\<not> truthy (q_goalId q)"
  then show "totalPomodoros (initFromUrlParams q v) = 1"
    by (simp add: initFromUrlParams_def getUrlParams_def initTimer_eq setTimeout_def Let_def)
qed (use terminal_facts [of s t0 now] unbound_run_terminal [of u ts t1] in simp_all)

text \<open>
  The instances on the example page: the third pomodoro of the bound goal, and one work
  interval with no goal bound.
\<close>

theorem terminal_completion_witness:
  "(isWorkTime (startTimer 0 (bound\<lparr>currentPomodoroCount := 2\<rparr>)) \<and>
    startTime (startTimer 0 (bound\<lparr>currentPomodoroCount := 2\<rparr>)) = Some 0 \<and>
    currentPomodoroCount (startTimer 0 (bound\<lparr>currentPomodoroCount := 2\<rparr>)) + 1
      = totalPomodoros (startTimer 0 (bound\<lparr>currentPomodoroCount := 2\<rparr>))) \<and>
   requests (completeSession 60000 (startTimer 0 (bound\<lparr>currentPomodoroCount := 2\<rparr>))) =
     [PostPomodoro (Some ''7'') (ISO 0) (ISO 60000) 3 3, PostGoalComplete ''7''] \<and>
   \<not> goalSelect_disabled (completeSession 60000 (startTimer 0 (bound\<lparr>currentPomodoroCount := 2\<rparr>))) \<and>
   timeouts (completeSession 60000 (startTimer 0 (bound\<lparr>currentPomodoroCount := 2\<rparr>))) = [] \<and>
   (\<not> isRunning ready \<and> \<not> isPaused ready \<and> isWorkTime ready \<and> goalSelect_value ready = '''' \<and>
    currentPomodoroCount ready = 0 \<and> totalPomodoros ready = 1 \<and>
    0 < timeLeft ready \<and> int (length (replicate 60 (60000::int))) = timeLeft ready) \<and>
   currentPomodoroCount (run (Start 0 # map Tick (replicate 60 60000)) ready) = 1 \<and>
   \<not> isRunning (run (Start 0 # map Tick (replicate 60 60000)) ready) \<and>
   requests (run (Start 0 # map Tick (replicate 60 60000)) ready) =
     [PostPomodoro None (ISO 0) (ISO 60000) 1 1]"
proof -
  let ?s = "startTimer 0 (bound\<lparr>currentPomodoroCount := 2\<rparr>)"
  have a: "isWorkTime ?s \<and> startTime ?s = Some 0 \<and> currentPomodoroCount ?s + 1 = totalPomodoros ?s"
    by code_simp
  have b: "\<not> isRunning ready \<and> \<not> isPaused ready \<and> isWorkTime ready \<and> goalSelect_value ready = '''' \<and>
    currentPomodoroCount ready = 0 \<and> totalPomodoros ready = 1 \<and>
    0 < timeLeft ready \<and> int (length (replicate 60 (60000::int))) = timeLeft ready"
    by code_simp
  have c: "goalSelect_value ?s = ''7''" "requests ?s = []" "timeouts ?s = []" "requests ready = []"
    "currentPomodoroCount ?s = 2" "totalPomodoros ?s = 3"
    by code_simp+
  from a b c terminal_completion [of ?s 0 60000 ready oneMinute ready "replicate 60 60000" 0]
  show ?thesis
    by (simp add: toISOString_def)
qed

subsection \<open>Intermediate pomodoros and breaks\<close>

lemma work_interval_to_break:
  fixes s :: state and t0 :: int and ts :: "int list"
  assumes "\<not> isRunning s" and "\<not> isPaused s" and "isWorkTime s" and "0 < timeLeft s"
    and "int (length ts) = timeLeft s"
    and "currentPomodoroCount s + 1 < totalPomodoros s"
  defines "r \<equiv> run (Start t0 # map Tick ts) s"
  shows "\<not> isRunning r \<and> \<not> isPaused r \<and> \<not> isWorkTime r \<and>
    timeLeft r = breakMinutes s * 60 \<and> timeouts r = timeouts s @ [300] \<and>
    currentPomodoroCount r = currentPomodoroCount s + 1 \<and> totalPomodoros r = totalPomodoros s \<and>
    workMinutes r = workMinutes s \<and> breakMinutes r = breakMinutes s \<and>
    intervals r = intervals s \<and> length (sessions r) = Suc (length (sessions s))"
proof -
  let ?s = "s\<lparr>startTime := Some t0, isRunning := True,
         statusText := (if isWorkTime s then WorkTimeText (currentPomodoroCount s + 1) (totalPomodoros s)
                        else BreakTimeText),
         startBtn_disabled := True, pauseBtn_disabled := False,
         workMinutesInput_disabled := True, breakMinutesInput_disabled := True,
         goalSelect_disabled := True, timeLeft := 0, timer_live := False\<rparr>"
  have r: "r = completeSession (last ts) ?s"
    unfolding r_def using assms(1,2,4,5) by (rule run_interval)
  have "isWorkTime ?s" using assms(3) by simp
  from completeSession_work [OF this, of "last ts"] assms(6) obtain ls where
    "completeSession (last ts) ?s =
       switchToBreak
         (?s\<lparr>currentPomodoroCount := currentPomodoroCount ?s + 1,
            sessions := sessions ?s @ [newSession (last ts) (?s\<lparr>currentPomodoroCount := currentPomodoroCount ?s + 1\<rparr>)],
            localStorage := ls,
            requests := requests ?s @
              [PostPomodoro (if goalSelect_value ?s = '''' then None else Some (goalSelect_value ?s))
                 (toISOString t0) (toISOString (last ts)) (currentPomodoroCount ?s + 1) (totalPomodoros ?s)]\<rparr>)"
    by auto
  with assms(2) show ?thesis
    unfolding r by (simp add: switchToBreak_eq)
qed

lemma break_interval_to_work:
  fixes s :: state and t0 :: int and ts :: "int list"
  assumes "\<not> isRunning s" and "\<not> isPaused s" and "\<not> isWorkTime s" and "0 < timeLeft s"
    and "int (length ts) = timeLeft s"
    and "currentPomodoroCount s < totalPomodoros s"
  defines "r \<equiv> run (Start t0 # map Tick ts) s"
  shows "\<not> isRunning r \<and> \<not> isPaused r \<and> isWorkTime r \<and>
    timeLeft r = workMinutes s * 60 \<and> timeouts r = timeouts s @ [1500] \<and>
    currentPomodoroCount r = currentPomodoroCount s \<and> totalPomodoros r = totalPomodoros s \<and>
    workMinutes r = workMinutes s \<and> breakMinutes r = breakMinutes s \<and>
    intervals r = intervals s \<and> sessions r = sessions s"
proof -
  have "r = completeSession (last ts)
      (s\<lparr>startTime := Some t0, isRunning := True,
         statusText := (if isWorkTime s then WorkTimeText (currentPomodoroCount s + 1) (totalPomodoros s)
                        else BreakTimeText),
         startBtn_disabled := True, pauseBtn_disabled := False,
         workMinutesInput_disabled := True, breakMinutesInput_disabled := True,
         goalSelect_disabled := True, timeLeft := 0, timer_live := False\<rparr>)"
    unfolding r_def using assms(1,2,4,5) by (rule run_interval)
  with assms(2,3,6) show ?thesis
    by (simp add: completeSession_def breakCompleted_eq)
qed

lemma scenario_B:
  fixes s :: state and t0 t1 t2 :: int and ws bs :: "int list"
  assumes idle: "\<not> isRunning s" "\<not> isPaused s" "isWorkTime s" "timeouts s = []"
    and goal: "currentPomodoroCount s = 0" "totalPomodoros s = 3"
    and durations: "timeLeft s = workMinutes s * 60" "0 < workMinutes s" "0 < breakMinutes s"
    and ticks: "int (length ws) = workMinutes s * 60" "int (length bs) = breakMinutes s * 60"
  defines "r \<equiv> run (Start t0 # map Tick ws @ Timeout 0 t1 # map Tick bs @ [Timeout 0 t2]) s"
  shows "isRunning r \<and> isWorkTime r \<and> currentPomodoroCount r = 1 \<and> totalPomodoros r = 3 \<and>
    timeLeft r = workMinutes s * 60 \<and> timeouts r = [] \<and> intervals r = Suc (intervals s) \<and>
    length (sessions r) = Suc (length (sessions s))"
proof -
  define r1 where "r1 = run (Start t0 # map Tick ws) s"
  have r1: "\<not> isRunning r1 \<and> \<not> isPaused r1 \<and> \<not> isWorkTime r1 \<and>
    timeLeft r1 = breakMinutes s * 60 \<and> timeouts r1 = timeouts s @ [300] \<and>
    currentPomodoroCount r1 = currentPomodoroCount s + 1 \<and> totalPomodoros r1 = totalPomodoros s \<and>
    workMinutes r1 = workMinutes s \<and> breakMinutes r1 = breakMinutes s \<and>
    intervals r1 = intervals s \<and> length (sessions r1) = Suc (length (sessions s))"
    unfolding r1_def using idle goal durations ticks
    by (intro work_interval_to_break) simp_all
  define u where "u = r1\<lparr>timeouts := []\<rparr>"
  define r2 where "r2 = run (Start t1 # map Tick bs) u"
  have r2: "\<not> isRunning r2 \<and> \<not> isPaused r2 \<and> isWorkTime r2 \<and>
    timeLeft r2 = workMinutes u * 60 \<and> timeouts r2 = timeouts u @ [1500] \<and>
    currentPomodoroCount r2 = currentPomodoroCount u \<and> totalPomodoros r2 = totalPomodoros u \<and>
    workMinutes r2 = workMinutes u \<and> breakMinutes r2 = breakMinutes u \<and>
    intervals r2 = intervals u \<and> sessions r2 = sessions u"
    unfolding r2_def using r1 idle goal durations ticks
    by (intro break_interval_to_work) (simp_all add: u_def)
  have "step (Timeout 0 t1) r1 = step (Start t1) u"
    using r1 idle by (simp add: u_def)
  then have "r = step (Timeout 0 t2) r2"
    by (simp add: r_def r1_def r2_def)
  also have "\<dots> = startTimer t2 (r2\<lparr>timeouts := []\<rparr>)"
    using r2 by (simp add: u_def)
  finally show ?thesis
    using r1 r2 goal by (simp add: startTimer_idle_eq u_def)
qed

lemma intermediate_facts:
  assumes "isWorkTime w" and "startTime w = Some t0"
    and "currentPomodoroCount w + 1 < totalPomodoros w"
  shows "\<not> isWorkTime (completeSession now w) \<and> \<not> isRunning (completeSession now w) \<and>
    timeLeft (completeSession now w) = breakMinutes w * 60 \<and>
    timeouts (completeSession now w) = timeouts w @ [300] \<and>
    currentPomodoroCount (completeSession now w) = currentPomodoroCount w + 1 \<and>
    totalPomodoros (completeSession now w) = totalPomodoros w"
proof -
  from completeSession_work [OF assms(1), of now] assms(2,3) obtain ls where
    "completeSession now w =
       switchToBreak
         (w\<lparr>currentPomodoroCount := currentPomodoroCount w + 1,
            sessions := sessions w @ [newSession now (w\<lparr>currentPomodoroCount := currentPomodoroCount w + 1\<rparr>)],
            localStorage := ls,
            requests := requests w @
              [PostPomodoro (if goalSelect_value w = '''' then None else Some (goalSelect_value w))
                 (toISOString t0) (toISOString now) (currentPomodoroCount w + 1) (totalPomodoros w)]\<rparr>)"
    by auto
  then show ?thesis
    by (simp add: switchToBreak_eq)
qed

lemma rest_over_facts:
  assumes "\<not> isWorkTime b" and "currentPomodoroCount b < totalPomodoros b"
  shows "isWorkTime (completeSession now b) \<and> \<not> isRunning (completeSession now b) \<and>
    timeLeft (completeSession now b) = workMinutes b * 60 \<and>
    timeouts (completeSession now b) = timeouts b @ [1500] \<and>
    currentPomodoroCount (completeSession now b) = currentPomodoroCount b \<and>
    totalPomodoros (completeSession now b) = totalPomodoros b"
  using assms by (simp add: completeSession_def breakCompleted_eq)

text \<open>A pending timeout that falls due while the timer is not running starts it.\<close>

lemma timeout_restarts:
  assumes "\<not> isRunning s" and "timeouts s = ts @ [d]"
  shows "isRunning (step (Timeout (length ts) now) s) \<and>
    isWorkTime (step (Timeout (length ts) now) s) = isWorkTime s \<and>
    timeLeft (step (Timeout (length ts) now) s) = timeLeft s \<and>
    timeouts (step (Timeout (length ts) now) s) = ts \<and>
    intervals (step (Timeout (length ts) now) s) = Suc (intervals s)"
  using assms by (simp add: startTimer_def setInterval_def Let_def)

text \<open>
  Claim C7.  When a work interval completes and the target is more than the incremented
  counter, the phase becomes break, \<open>timeLeft\<close> is the break duration and a timeout of
  300 ms is pending that restarts the countdown.  When the break completes with
  pomodoros remaining, the phase becomes work, \<open>timeLeft\<close> is the work duration and a
  timeout of 1500 ms is pending that starts the next work interval; the second delay is
  the longer one.  For a goal of three pomodoros, the first work interval, its timeout,
  the break and its timeout leave the timer running the second work interval with the
  counter at one and the target at three.  The start time of the completed work interval
  is taken to be set (\<open>live_countdown_started\<close>).
\<close>

theorem intermediate_completion:
  "(isWorkTime w \<and> startTime w = Some t0 \<and> currentPomodoroCount w + 1 < totalPomodoros w \<longrightarrow>
      \<not> isWorkTime (completeSession now w) \<and> \<not> isRunning (completeSession now w) \<and>
      timeLeft (completeSession now w) = breakMinutes w * 60 \<and>
      timeouts (completeSession now w) = timeouts w @ [300] \<and>
      currentPomodoroCount (completeSession now w) = currentPomodoroCount w + 1 \<and>
      isRunning (step (Timeout (length (timeouts w)) later) (completeSession now w)) \<and>
      \<not> isWorkTime (step (Timeout (length (timeouts w)) later) (completeSession now w)) \<and>
      timeLeft (step (Timeout (length (timeouts w)) later) (completeSession now w))
        = breakMinutes w * 60) \<and>
   (\<not> isWorkTime b \<and> currentPomodoroCount b < totalPomodoros b \<longrightarrow>
      isWorkTime (completeSession now b) \<and> \<not> isRunning (completeSession now b) \<and>
      timeLeft (completeSession now b) = workMinutes b * 60 \<and>
      timeouts (completeSession now b) = timeouts b @ [1500] \<and>
      currentPomodoroCount (completeSession now b) = currentPomodoroCount b \<and>
      isRunning (step (Timeout (length (timeouts b)) later) (completeSession now b)) \<and>
      isWorkTime (step (Timeout (length (timeouts b)) later) (completeSession now b)) \<and>
      timeLeft (step (Timeout (length (timeouts b)) later) (completeSession now b))
        = workMinutes b * 60) \<and>
   (isWorkTime w \<and> startTime w = Some t0 \<and> currentPomodoroCount w + 1 < totalPomodoros w \<and>
    \<not> isWorkTime b \<and> currentPomodoroCount b < totalPomodoros b \<longrightarrow>
      last (timeouts (completeSession now w)) < last (timeouts (completeSession now b))) \<and>
   (\<not> isRunning s \<and> \<not> isPaused s \<and> isWorkTime s \<and> timeouts s = [] \<and>
    currentPomodoroCount s = 0 \<and> totalPomodoros s = 3 \<and>
    timeLeft s = workMinutes s * 60 \<and> 0 < workMinutes s \<and> 0 < breakMinutes s \<and>
    int (length ws) = workMinutes s * 60 \<and> int (length bs) = breakMinutes s * 60 \<longrightarrow>
      isRunning (run (Start t0 # map Tick ws @ Timeout 0 t1 # map Tick bs @ [Timeout 0 t2]) s) \<and>
      isWorkTime (run (Start t0 # map Tick ws @ Timeout 0 t1 # map Tick bs @ [Timeout 0 t2]) s) \<and>
      currentPomodoroCount
        (run (Start t0 # map Tick ws @ Timeout 0 t1 # map Tick bs @ [Timeout 0 t2]) s) = 1 \<and>
      totalPomodoros
        (run (Start t0 # map Tick ws @ Timeout 0 t1 # map Tick bs @ [Timeout 0 t2]) s) = 3 \<and>
      timeLeft (run (Start t0 # map Tick ws @ Timeout 0 t1 # map Tick bs @ [Timeout 0 t2]) s)
        = workMinutes s * 60)"
proof -
  have A: "\<not> isWorkTime (completeSession now w) \<and> \<not> isRunning (completeSession now w) \<and>
      timeLeft (completeSession now w) = breakMinutes w * 60 \<and>
      timeouts (completeSession now w) = timeouts w @ [300] \<and>
      currentPomodoroCount (completeSession now w) = currentPomodoroCount w + 1 \<and>
      isRunning (step (Timeout (length (timeouts w)) later) (completeSession now w)) \<and>
      \<not> isWorkTime (step (Timeout (length (timeouts w)) later) (completeSession now w)) \<and>
      timeLeft (step (Timeout (length (timeouts w)) later) (completeSession now w))
        = breakMinutes w * 60"
    if "isWorkTime w \<and> startTime w = Some t0 \<and> currentPomodoroCount w + 1 < totalPomodoros w"
  proof -
    from that have f: "\<not> isWorkTime (completeSession now w) \<and> \<not> isRunning (completeSession now w) \<and>
      timeLeft (completeSession now w) = breakMinutes w * 60 \<and>
      timeouts (completeSession now w) = timeouts w @ [300] \<and>
      currentPomodoroCount (completeSession now w) = currentPomodoroCount w + 1 \<and>
      totalPomodoros (completeSession now w) = totalPomodoros w"
      by (intro intermediate_facts) simp_all
    with timeout_restarts [of "completeSession now w" "timeouts w" 300 later] show ?thesis
      by simp
  qed
  have B: "isWorkTime (completeSession now b) \<and> \<not> isRunning (completeSession now b) \<and>
      timeLeft (completeSession now b) = workMinutes b * 60 \<and>
      timeouts (completeSession now b) = timeouts b @ [1500] \<and>
      currentPomodoroCount (completeSession now b) = currentPomodoroCount b \<and>
      isRunning (step (Timeout (length (timeouts b)) later) (completeSession now b)) \<and>
      isWorkTime (step (Timeout (length (timeouts b)) later) (completeSession now b)) \<and>
      timeLeft (step (Timeout (length (timeouts b)) later) (completeSession now b))
        = workMinutes b * 60"
    if "\<not> isWorkTime b \<and> currentPomodoroCount b < totalPomodoros b"
  proof -
    from that have f: "isWorkTime (completeSession now b) \<and> \<not> isRunning (completeSession now b) \<and>
      timeLeft (completeSession now b) = workMinutes b * 60 \<and>
      timeouts (completeSession now b) = timeouts b @ [1500] \<and>
      currentPomodoroCount (completeSession now b) = currentPomodoroCount b \<and>
      totalPomodoros (completeSession now b) = totalPomodoros b"
      by (intro rest_over_facts) simp_all
    with timeout_restarts [of "completeSession now b" "timeouts b" 1500 later] show ?thesis
      by simp
  qed
  have C: "last (timeouts (completeSession now w)) < last (timeouts (completeSession now b))"
    if "isWorkTime w \<and> startTime w = Some t0 \<and> currentPomodoroCount w + 1 < totalPomodoros w \<and>
        \<not> isWorkTime b \<and> currentPomodoroCount b < totalPomodoros b"
    using A B that by simp
  have D: "isRunning (run (Start t0 # map Tick ws @ Timeout 0 t1 # map Tick bs @ [Timeout 0 t2]) s) \<and>
      isWorkTime (run (Start t0 # map Tick ws @ Timeout 0 t1 # map Tick bs @ [Timeout 0 t2]) s) \<and>
      currentPomodoroCount
        (run (Start t0 # map Tick ws @ Timeout 0 t1 # map Tick bs @ [Timeout 0 t2]) s) = 1 \<and>
      totalPomodoros
        (run (Start t0 # map Tick ws @ Timeout 0 t1 # map Tick bs @ [Timeout 0 t2]) s) = 3 \<and>
      timeLeft (run (Start t0 # map Tick ws @ Timeout 0 t1 # map Tick bs @ [Timeout 0 t2]) s)
        = workMinutes s * 60"
    if "\<not> isRunning s \<and> \<not> isPaused s \<and> isWorkTime s \<and> timeouts s = [] \<and>
      currentPomodoroCount s = 0 \<and> totalPomodoros s = 3 \<and>
      timeLeft s = workMinutes s * 60 \<and> 0 < workMinutes s \<and> 0 < breakMinutes s \<and>
      int (length ws) = workMinutes s * 60 \<and> int (length bs) = breakMinutes s * 60"
    using scenario_B [of s ws bs t0 t1 t2] that by simp
  from A B C D show ?thesis by blast
qed

text \<open>The instances on the example page with the goal of three pomodoros bound.\<close>

theorem intermediate_completion_witness:
  "(isWorkTime working \<and> startTime working = Some 0 \<and>
    currentPomodoroCount working + 1 < totalPomodoros working) \<and>
   (\<not> isWorkTime resting \<and> currentPomodoroCount resting < totalPomodoros resting) \<and>
   (\<not> isRunning bound \<and> \<not> isPaused bound \<and> isWorkTime bound \<and> timeouts bound = [] \<and>
    currentPomodoroCount bound = 0 \<and> totalPomodoros bound = 3 \<and>
    timeLeft bound = workMinutes bound * 60 \<and> 0 < workMinutes bound \<and> 0 < breakMinutes bound \<and>
    int (length (replicate 60 (60000::int))) = workMinutes bound * 60 \<and>
    int (length (replicate 60 (120300::int))) = breakMinutes bound * 60) \<and>
   timeouts (completeSession 60000 working) = [300] \<and>
   timeLeft (completeSession 60000 working) = 60 \<and>
   \<not> isWorkTime (completeSession 60000 working) \<and>
   timeouts (completeSession 60000 resting) = [300, 1500] \<and>
   isWorkTime (completeSession 60000 resting) \<and>
   last (timeouts (completeSession 60000 working)) < last (timeouts (completeSession 60000 resting)) \<and>
   isRunning (run (Start 0 # map Tick (replicate 60 60000) @ Timeout 0 60300 #
                   map Tick (replicate 60 120300) @ [Timeout 0 121800]) bound) \<and>
   isWorkTime (run (Start 0 # map Tick (replicate 60 60000) @ Timeout 0 60300 #
                   map Tick (replicate 60 120300) @ [Timeout 0 121800]) bound) \<and>
   currentPomodoroCount (run (Start 0 # map Tick (replicate 60 60000) @ Timeout 0 60300 #
                   map Tick (replicate 60 120300) @ [Timeout 0 121800]) bound) = 1 \<and>
   totalPomodoros (run (Start 0 # map Tick (replicate 60 60000) @ Timeout 0 60300 #
                   map Tick (replicate 60 120300) @ [Timeout 0 121800]) bound) = 3"
proof -
  have w: "isWorkTime working \<and> startTime working = Some 0 \<and>
    currentPomodoroCount working + 1 < totalPomodoros working"
    by code_simp
  have b: "\<not> isWorkTime resting \<and> currentPomodoroCount resting < totalPomodoros resting"
    by code_simp
  have s: "\<not> isRunning bound \<and> \<not> isPaused bound \<and> isWorkTime bound \<and> timeouts bound = [] \<and>
    currentPomodoroCount bound = 0 \<and> totalPomodoros bound = 3 \<and>
    timeLeft bound = workMinutes bound * 60 \<and> 0 < workMinutes bound \<and> 0 < breakMinutes bound \<and>
    int (length (replicate 60 (60000::int))) = workMinutes bound * 60 \<and>
    int (length (replicate 60 (120300::int))) = breakMinutes bound * 60"
    by code_simp
  have v: "timeouts working = []" "timeouts resting = [300]" "breakMinutes working = 1"
    by code_simp+
  from w b s v
    intermediate_completion [of working 0 60000 60300 resting bound "replicate 60 60000"
      "replicate 60 120300" 60300 121800]
  show ?thesis
    by simp
qed

subsection \<open>Goal labels of loaded sessions\<close>

lemma fold_goals_absent:
  "g \<notin> opt_value ` set opts \<Longrightarrow>
   fold (\<lambda>option obj.
           if opt_value option \<noteq> ''''
           then setProperty (opt_value option) (opt_text option) obj else obj)
     opts m g = m g"
  by (induction opts arbitrary: m) (auto simp add: setProperty_def)

lemma availableGoals_absent:
  "g \<notin> opt_value ` set opts \<Longrightarrow> availableGoals opts g = None"
  by (simp add: availableGoals_def fold_goals_absent)

lemma fold_goals_present:
  "fold (\<lambda>option obj.
           if opt_value option \<noteq> ''''
           then setProperty (opt_value option) (opt_text option) obj else obj)
     opts m g = Some t \<Longrightarrow>
   m g = Some t \<or> (\<exists>x \<in> set opts. opt_value x = g \<and> opt_text x = t)"
proof (induction opts arbitrary: m)
  case Nil
  then show ?case by simp
next
  case (Cons a opts)
  from Cons.IH [OF Cons.prems [simplified]] show ?case
    by (auto simp add: setProperty_def split: if_splits)
qed

lemma availableGoals_present:
  "availableGoals opts g = Some t \<Longrightarrow> \<exists>x \<in> set opts. opt_value x = g \<and> opt_text x = t"
  using fold_goals_present [of opts Map.empty g t] by (simp add: availableGoals_def)

lemma matchGoal_frame: "matchGoal goals x = x\<lparr>goalText := goalText (matchGoal goals x)\<rparr>"
  by (simp add: matchGoal_def split: option.splits)

text \<open>
  The goal ids of the application are the keys of its \<open>goals\<close> table, rendered in
  decimal: none of them is the name of a member of \<open>Object.prototype\<close>.
\<close>

lemma decimal_digit:
  fixes k :: nat
  assumes "k < 10"
  shows "char_of (48 + k) \<in> set ''0123456789''"
proof -
  have "\<forall>j \<in> set [0..<10]. char_of (48 + j) \<in> set ''0123456789''"
    by code_simp
  moreover from assms have "k \<in> set [0..<10]"
    by simp
  ultimately show ?thesis
    by blast
qed

lemma showNat_digits: "c \<in> set (showNat n) \<Longrightarrow> c \<in> set ''0123456789''"
proof (induction n rule: showNat.induct)
  case (1 n)
  show ?case
  proof (cases "n < 10")
    case True
    then have "showNat n = [char_of (48 + n)]"
      by (simp only: showNat.simps [of n] if_True)
    with "1.prems" have "c = char_of (48 + n)"
      by (simp only: list.set insert_iff empty_iff) blast
    with decimal_digit [OF True] show ?thesis
      by (simp only:)
  next
    case False
    then have "showNat n = showNat (n div 10) @ [char_of (48 + n mod 10)]"
      by (simp only: showNat.simps [of n] if_False)
    with "1.prems" have "c \<in> set (showNat (n div 10)) \<or> c = char_of (48 + n mod 10)"
      by (simp only: set_append list.set Un_iff insert_iff empty_iff) blast
    then show ?thesis
    proof
      assume "c \<in> set (showNat (n div 10))"
      with False show ?thesis by (rule "1.IH")
    next
      have "n mod 10 < 10" by simp
      then have "char_of (48 + n mod 10) \<in> set ''0123456789''"
        by (rule decimal_digit)
      moreover assume "c = char_of (48 + n mod 10)"
      ultimately show ?thesis by (simp only:)
    qed
  qed
qed

lemma members_not_decimal:
  "\<forall>k \<in> set objectPrototypeMembers. \<exists>c \<in> set k. c \<notin> set ''0123456789''"
  by code_simp

lemma database_key_plain: "showNat n \<notin> set objectPrototypeMembers"
proof
  assume "showNat n \<in> set objectPrototypeMembers"
  with members_not_decimal obtain c where "c \<in> set (showNat n)" "c \<notin> set ''0123456789''"
    by blast
  with showNat_digits show False by blast
qed

text \<open>
  Claim C8.  For a session whose goal id is not the name of a member of
  \<open>Object.prototype\<close> (no database key is), \<open>matchGoalIdsWithDropdown\<close> changes nothing
  of the session but its \<open>goalText\<close>; if the goal id is not the value of an option of
  the selector the session keeps its stored text, and a text that did change is the text
  of an option whose value is the session's goal id.
\<close>

theorem matchGoalIds_label:
  assumes "i < length (sessions s)"
    and "goalId (sessions s ! i) \<notin> Some ` set objectPrototypeMembers"
  shows "length (sessions (matchGoalIdsWithDropdown s)) = length (sessions s) \<and>
    sessions (matchGoalIdsWithDropdown s) ! i =
      (sessions s ! i)\<lparr>goalText := goalText (sessions (matchGoalIdsWithDropdown s) ! i)\<rparr> \<and>
    ((\<forall>g. goalId (sessions s ! i) = Some g \<longrightarrow> g \<notin> opt_value ` set (goalSelect_options s)) \<longrightarrow>
       sessions (matchGoalIdsWithDropdown s) ! i = sessions s ! i) \<and>
    (goalText (sessions (matchGoalIdsWithDropdown s) ! i) \<noteq> goalText (sessions s ! i) \<longrightarrow>
       (\<exists>x \<in> set (goalSelect_options s).
          goalId (sessions s ! i) = Some (opt_value x) \<and>
          goalText (sessions (matchGoalIdsWithDropdown s) ! i) = Some (Text (opt_text x))))"
proof -
  let ?goals = "availableGoals (goalSelect_options s)"
  let ?x = "sessions s ! i"
  from assms(1) have nth: "sessions (matchGoalIdsWithDropdown s) ! i = matchGoal ?goals ?x"
    by (auto simp add: matchGoalIdsWithDropdown_def)
  have len: "length (sessions (matchGoalIdsWithDropdown s)) = length (sessions s)"
    by (simp add: matchGoalIdsWithDropdown_def)
  have frame: "matchGoal ?goals ?x = ?x\<lparr>goalText := goalText (matchGoal ?goals ?x)\<rparr>"
    by (rule matchGoal_frame)
  have own: "getProperty ?goals g = map_option Text (?goals g)" if "goalId ?x = Some g" for g
    using that assms(2) by (auto simp add: getProperty_def split: option.splits)
  have absent: "matchGoal ?goals ?x = ?x"
    if "\<forall>g. goalId ?x = Some g \<longrightarrow> g \<notin> opt_value ` set (goalSelect_options s)"
  proof (cases "goalId ?x")
    case None
    then show ?thesis by (simp add: matchGoal_def)
  next
    case (Some g)
    with that have "?goals g = None"
      by (simp add: availableGoals_absent)
    with Some own [OF Some] show ?thesis
      by (simp add: matchGoal_def truthyLabel_def)
  qed
  have changed: "\<exists>x \<in> set (goalSelect_options s).
      goalId ?x = Some (opt_value x) \<and> goalText (matchGoal ?goals ?x) = Some (Text (opt_text x))"
    if neq: "goalText (matchGoal ?goals ?x) \<noteq> goalText ?x"
  proof (cases "goalId ?x")
    case None
    with neq show ?thesis by (simp add: matchGoal_def)
  next
    case (Some g)
    with neq have upd: "goalText (matchGoal ?goals ?x) = getProperty ?goals g"
      and "truthyLabel (getProperty ?goals g)"
      by (auto simp add: matchGoal_def split: if_splits)
    with own [OF Some] obtain t where t: "?goals g = Some t"
      by (auto simp add: truthyLabel_def split: option.splits)
    from availableGoals_present [OF t] obtain x
      where "x \<in> set (goalSelect_options s)" "opt_value x = g" "opt_text x = t"
      by blast
    with Some upd t own [OF Some] show ?thesis by auto
  qed
  from len frame absent changed show ?thesis
    unfolding nth by blast
qed

text \<open>
  The instance on \<open>oldLog\<close>: the session of the goal that is gone keeps its text, the
  other one takes the text of the option.
\<close>

theorem matchGoalIds_label_witness:
  "0 < length (sessions oldLog) \<and> 1 < length (sessions oldLog) \<and>
   goalId (sessions oldLog ! 0) \<notin> Some ` set objectPrototypeMembers \<and>
   goalId (sessions oldLog ! 1) \<notin> Some ` set objectPrototypeMembers \<and>
   goalId (sessions oldLog ! 0) = Some ''9'' \<and>
   ''9'' \<notin> opt_value ` set (goalSelect_options oldLog) \<and>
   sessions (matchGoalIdsWithDropdown oldLog) ! 0 = sessions oldLog ! 0 \<and>
   goalText (sessions (matchGoalIdsWithDropdown oldLog) ! 0) = Some (Text ''Learn Isabelle'') \<and>
   goalText (sessions (matchGoalIdsWithDropdown oldLog) ! 1) \<noteq> goalText (sessions oldLog ! 1) \<and>
   (\<exists>x \<in> set (goalSelect_options oldLog).
      goalId (sessions oldLog ! 1) = Some (opt_value x) \<and>
      goalText (sessions (matchGoalIdsWithDropdown oldLog) ! 1) = Some (Text (opt_text x)))"
proof -
  have len: "0 < length (sessions oldLog)" "1 < length (sessions oldLog)"
    by code_simp+
  have plain: "goalId (sessions oldLog ! 0) \<notin> Some ` set objectPrototypeMembers"
    "goalId (sessions oldLog ! 1) \<notin> Some ` set objectPrototypeMembers"
    by code_simp+
  have gone: "goalId (sessions oldLog ! 0) = Some ''9''"
    "''9'' \<notin> opt_value ` set (goalSelect_options oldLog)"
    by code_simp+
  then have absent: "\<forall>g. goalId (sessions oldLog ! 0) = Some g \<longrightarrow>
      g \<notin> opt_value ` set (goalSelect_options oldLog)"
    by simp
  have old: "goalText (sessions oldLog ! 0) = Some (Text ''Learn Isabelle'')"
    by code_simp
  have renamed: "goalText (sessions (matchGoalIdsWithDropdown oldLog) ! 1) \<noteq> goalText (sessions oldLog ! 1)"
    by code_simp
  from absent old renamed
    matchGoalIds_label [OF len(1) plain(1)] matchGoalIds_label [OF len(2) plain(2)]
  show ?thesis
    using len gone plain by simp
qed

text \<open>
  Outside that range the prototype answers the lookup: with the goal id
  \<open>constructor\<close>, which no option has as value, the stored text is replaced by the
  member of that name.
\<close>

lemma prototype_member_replaces_label:
  "goalText (matchGoal (availableGoals (goalSelect_options ready))
     (exampleSession\<lparr>goalId := Some ''constructor''\<rparr>)) = Some (Member ''constructor'')"
  by code_simp

subsection \<open>Reloading the local cache\<close>

text \<open>
  Claim C2.  The log of \<open>savedLog\<close> is one session started today, and the local cache
  holds it; the page loaded over that cache with no sessions from the server has an
  empty log.  \<open>loadSessions\<close> reads \<open>allSessions\<close>, the exception is caught and the
  handler assigns the empty array.
\<close>

theorem reload_loses_saved_sessions:
  "sessions savedLog = [exampleSession] \<and>
   filter (isToday (utcOffset savedLog) 70000) (sessions savedLog) = [exampleSession] \<and>
   map_of (localStorage savedLog) (storageKey (userId savedLog)) \<noteq> None \<and>
   sessions reloaded = []"
  by code_simp

text \<open>The same for every cache: a reload never restores a session.\<close>

lemma loadSessions_empty: "sessions s = [] \<Longrightarrow> sessions (loadSessions now s) = []"
  by (simp add: loadSessions_def allSessions_def split: option.splits)

text \<open>
  What the cache gives back before that point: each saved session with its goal text
  taken through JSON, and the placeholder text where that leaves none.  A string comes
  back as it was.
\<close>

lemma revive_toJson:
  "toJson x = Inr j \<Longrightarrow>
   revive d j = x\<lparr>goalText := orText (map_option labelOfJson (labelToJson (goalText x))) d\<rparr>"
  by (auto simp add: toJson_def revive_def toISOString_def split: option.splits)

lemma revive_stringify:
  "stringify xs = Inr js \<Longrightarrow>
   map (revive d) js =
     map (\<lambda>x. x\<lparr>goalText := orText (map_option labelOfJson (labelToJson (goalText x))) d\<rparr>) xs"
  by (induction xs arbitrary: js) (auto simp add: revive_toJson split: sum.splits)

lemma text_through_json:
  "map_option labelOfJson (labelToJson (Some (Text t))) = Some (Text t)"
  by (simp add: labelToJson_def labelOfJson_def)

subsection \<open>The counter never passes the target, unless a finished run is started again\<close>

lemma consistent_initTimer: "consistent s \<Longrightarrow> consistent (initTimer s)"
  by (simp add: consistent_def initTimer_eq)

lemma consistent_startTimer:
  assumes "consistent s" and "isWorkTime s \<and> \<not> isRunning s \<longrightarrow> currentPomodoroCount s < totalPomodoros s"
  shows "consistent (startTimer now s)"
  using assms by (auto simp add: consistent_def startTimer_def setInterval_def Let_def)

lemma consistent_timeouts: "consistent (s\<lparr>timeouts := ts\<rparr>) = consistent s"
  by (simp add: consistent_def)

lemma consistent_pauseTimer: "consistent s \<Longrightarrow> consistent (pauseTimer s)"
  by (auto simp add: consistent_def pauseTimer_def clearInterval_def Let_def)

lemma consistent_resetTimer: "consistent s \<Longrightarrow> consistent (resetTimer s)"
  by (auto simp add: consistent_def resetTimer_def clearInterval_def initTimer_eq Let_def)

lemma orDefault_estimate:
  "x \<in> set opts \<Longrightarrow> estimatesValid opts \<Longrightarrow>
   1 \<le> orDefault (parseInt (toString (opt_estimated x))) 1"
  by (auto simp add: estimatesValid_def list_all_iff orDefault_def split: option.splits)

lemma selected_option_in_set:
  "goalSelect_value s \<noteq> '''' \<Longrightarrow>
   goalSelect_options s ! nat (goalSelect_selectedIndex s) \<in> set (goalSelect_options s)"
  by (auto simp add: goalSelect_value_def Let_def split: if_splits)

text \<open>Binding a goal re-establishes the bound from any state whose countdown bookkeeping is sound.\<close>

lemma consistent_updateCurrentGoalDisplay:
  assumes "intervals s = (if isRunning s then 1 else 0)" and "timer_live s = isRunning s"
    and "isRunning s \<or> isPaused s \<longrightarrow> startTime s \<noteq> None"
    and "estimatesValid (goalSelect_options s)"
  shows "consistent (updateCurrentGoalDisplay s)"
proof -
  have "1 \<le> totalPomodoros (updateCurrentGoalDisplay s)"
    using assms(4) selected_option_in_set [of s]
    by (auto simp add: updateCurrentGoalDisplay_eq intro: orDefault_estimate)
  with assms show ?thesis
    by (simp add: consistent_def updateCurrentGoalDisplay_eq)
qed

lemma consistent_goalChange:
  "consistent s \<Longrightarrow> consistent (updateCurrentGoalDisplay (s\<lparr>goalSelect_selectedIndex := i\<rparr>))"
  by (rule consistent_updateCurrentGoalDisplay) (simp_all add: consistent_def)

lemma set_removeOption: "set (removeOption g opts) \<subseteq> set opts"
  by (induction opts) auto

lemma estimatesValid_removeOption:
  "estimatesValid opts \<Longrightarrow> estimatesValid (removeOption g opts)"
  using set_removeOption [of g opts] by (auto simp add: estimatesValid_def list_all_iff)

lemma consistent_goalCompleted: "consistent s \<Longrightarrow> consistent (goalCompleted g s)"
  unfolding goalCompleted_def Let_def
  by (rule consistent_updateCurrentGoalDisplay)
     (simp_all add: consistent_def setGoalSelectValue_def estimatesValid_removeOption)

lemma consistent_completeSession:
  assumes "consistent (s\<lparr>timer_live := True, intervals := 1\<rparr>)" and "isRunning s"
    and "\<not> timer_live s" and "intervals s = 0"
  shows "consistent (completeSession now s)"
proof (cases "isWorkTime s")
  case True
  from assms(1,2) obtain t0 where t0: "startTime s = Some t0"
    by (auto simp add: consistent_def)
  with completeSession_work [OF True, of now] obtain ls where
    "completeSession now s =
         (if totalPomodoros s \<le> currentPomodoroCount s + 1
          then taskCompleted (if goalSelect_value s = '''' then None else Some (goalSelect_value s))
          else switchToBreak)
           (s\<lparr>currentPomodoroCount := currentPomodoroCount s + 1,
              sessions := sessions s @ [newSession now (s\<lparr>currentPomodoroCount := currentPomodoroCount s + 1\<rparr>)],
              localStorage := ls,
              requests := requests s @
                [PostPomodoro (if goalSelect_value s = '''' then None else Some (goalSelect_value s))
                   (toISOString t0) (toISOString now) (currentPomodoroCount s + 1) (totalPomodoros s)]\<rparr>)"
    by auto
  with assms True t0 show ?thesis
    by (simp add: consistent_def taskCompleted_eq switchToBreak_eq)
next
  case False
  with assms show ?thesis
    by (simp add: consistent_def completeSession_def breakCompleted_eq)
qed

lemma consistent_tick: "consistent s \<Longrightarrow> consistent (step (Tick now) s)"
proof (cases "intervals s = 0 \<or> 0 < timeLeft s - 1")
  case True
  assume "consistent s"
  with True show ?thesis
    by (auto simp add: countdown_def Let_def consistent_def)
next
  case False
  assume c: "consistent s"
  with False have run: "isRunning s" "timer_live s"
    by (auto simp add: consistent_def split: if_splits)
  let ?s = "s\<lparr>timeLeft := timeLeft s - 1, intervals := intervals s - 1, timer_live := False\<rparr>"
  from False run have "step (Tick now) s = completeSession now ?s"
    by (simp add: countdown_def clearInterval_def Let_def)
  moreover have "consistent (completeSession now ?s)"
    using c run by (intro consistent_completeSession) (auto simp add: consistent_def)
  ultimately show ?thesis by simp
qed

lemma consistent_step:
  assumes "consistent s" and "beginsWork e s \<longrightarrow> currentPomodoroCount s < totalPomodoros s"
  shows "consistent (step e s)"
proof (cases e)
  case (Start now)
  with assms show ?thesis
    by (simp add: beginsWork_def consistent_startTimer)
next
  case Pause
  with assms show ?thesis by (simp add: consistent_pauseTimer)
next
  case Reset
  with assms show ?thesis by (simp add: consistent_resetTimer)
next
  case (Tick now)
  with assms show ?thesis by (simp only: consistent_tick)
next
  case (Timeout k now)
  with assms show ?thesis
    by (auto simp add: beginsWork_def consistent_timeouts intro!: consistent_startTimer)
next
  case (GoalChange i)
  with assms show ?thesis by (simp add: consistent_goalChange)
next
  case (WorkMinutesChange v)
  with assms have "consistent (s\<lparr>workMinutesInput_value := v\<rparr>)"
    by (simp add: consistent_def)
  with WorkMinutesChange show ?thesis by (simp add: consistent_initTimer)
next
  case (BreakMinutesChange v)
  with assms have "consistent (s\<lparr>breakMinutesInput_value := v\<rparr>)"
    by (simp add: consistent_def)
  with BreakMinutesChange show ?thesis by (simp add: consistent_initTimer)
next
  case (GoalCompleted g)
  with assms show ?thesis by (simp add: consistent_goalCompleted)
qed

lemma consistent_run: "consistent s \<Longrightarrow> noRestart es s \<Longrightarrow> consistent (run es s)"
  by (induction es arbitrary: s) (simp_all add: consistent_step)

lemma consistent_sessions: "consistent (s\<lparr>sessions := xs\<rparr>) = consistent s"
  by (simp add: consistent_def)

lemma consistent_initFromUrlParams:
  assumes "consistent s" and "currentPomodoroCount s = 0"
  shows "consistent (initFromUrlParams q s)"
proof -
  define s1 where "s1 =
    (if truthy (p_goalId (getUrlParams q))
     then updateCurrentGoalDisplay (setGoalSelectValue (toString (p_goalId (getUrlParams q))) s)
     else s\<lparr>totalPomodoros := 1\<rparr>)"
  have "consistent (updateCurrentGoalDisplay (setGoalSelectValue v s))" for v
    using assms(1)
    by (intro consistent_updateCurrentGoalDisplay) (simp_all add: consistent_def setGoalSelectValue_def)
  moreover have "consistent (s\<lparr>totalPomodoros := 1\<rparr>)"
    using assms by (simp add: consistent_def)
  ultimately have s1: "consistent s1"
    by (simp add: s1_def)
  have "\<exists>w b a ts. initFromUrlParams q s =
      (initTimer (s1\<lparr>workMinutesInput_value := w, breakMinutesInput_value := b,
                      autoStartTimer := a\<rparr>))\<lparr>timeouts := ts\<rparr>"
  proof -
    let ?p = "getUrlParams q"
    let ?w = "if p_duration ?p \<noteq> 0 then showInt (p_duration ?p) else workMinutesInput_value s1"
    let ?b = "if p_breakDuration ?p \<noteq> 0 then showInt (p_breakDuration ?p) else breakMinutesInput_value s1"
    let ?i = "initTimer (s1\<lparr>workMinutesInput_value := ?w, breakMinutesInput_value := ?b,
                      autoStartTimer := p_autoStart ?p\<rparr>)"
    have "initFromUrlParams q s = ?i\<lparr>timeouts := (if p_autoStart ?p then timeouts ?i @ [500] else timeouts ?i)\<rparr>"
      by (simp add: initFromUrlParams_def Let_def setTimeout_def initTimer_eq flip: s1_def)
    then show ?thesis by blast
  qed
  then obtain w b a ts where "initFromUrlParams q s =
      (initTimer (s1\<lparr>workMinutesInput_value := w, breakMinutesInput_value := b,
                      autoStartTimer := a\<rparr>))\<lparr>timeouts := ts\<rparr>"
    by blast
  moreover from s1 have "consistent (s1\<lparr>workMinutesInput_value := w, breakMinutesInput_value := b,
                      autoStartTimer := a\<rparr>)"
    by (simp add: consistent_def)
  ultimately show ?thesis
    by (simp add: consistent_timeouts consistent_initTimer)
qed

lemma consistent_pageLoaded:
  assumes "estimatesValid (pg_options p)"
  shows "consistent (pageLoaded now serverSessions q p)"
proof -
  define s1 where "s1 =
    (if serverSessions \<noteq> []
     then (scriptLoaded p)\<lparr>sessions := map (revive ''No goal selected'') serverSessions\<rparr>
     else scriptLoaded p)"
  from assms have "consistent (scriptLoaded p)" "currentPomodoroCount (scriptLoaded p) = 0"
    by (simp_all add: consistent_def scriptLoaded_def)
  then have "consistent s1" "currentPomodoroCount s1 = 0"
    by (simp_all add: s1_def consistent_sessions)
  then have s2: "consistent (initFromUrlParams q s1)"
    by (rule consistent_initFromUrlParams)
  obtain xs where xs: "loadSessions now (initFromUrlParams q s1) = (initFromUrlParams q s1)\<lparr>sessions := xs\<rparr>"
    using loadSessions_frame by blast
  obtain ys where ys: "matchGoalIdsWithDropdown ((initFromUrlParams q s1)\<lparr>sessions := xs\<rparr>) =
      (initFromUrlParams q s1)\<lparr>sessions := xs, sessions := ys\<rparr>"
    using matchGoalIdsWithDropdown_frame [of "(initFromUrlParams q s1)\<lparr>sessions := xs\<rparr>"] by auto
  have "pageLoaded now serverSessions q p =
      matchGoalIdsWithDropdown (loadSessions now (initFromUrlParams q s1))"
    by (simp add: pageLoaded_def initTimerPage_def allSessions_def Let_def s1_def)
  with xs ys s2 show ?thesis
    by (simp add: consistent_sessions)
qed

text \<open>
  Claim C1, as it holds.  On a page whose goal estimates are not negative, every run of
  events from the loaded page in which no work interval is started or resumed with the
  counter already at the target ends with \<open>currentPomodoroCount \<le> totalPomodoros\<close>.
\<close>

theorem count_within_target:
  assumes "estimatesValid (pg_options p)"
    and "noRestart es (pageLoaded now serverSessions q p)"
  shows "currentPomodoroCount (run es (pageLoaded now serverSessions q p))
    \<le> totalPomodoros (run es (pageLoaded now serverSessions q p))"
proof -
  from assms(1) have "consistent (pageLoaded now serverSessions q p)"
    by (rule consistent_pageLoaded)
  from this assms(2) have "consistent (run es (pageLoaded now serverSessions q p))"
    by (rule consistent_run)
  then show ?thesis
    by (simp add: consistent_def)
qed

text \<open>
  The instance on the example page: a work interval with no goal bound, then the goal of
  three pomodoros is chosen, started, paused and resumed.
\<close>

theorem count_within_target_witness:
  "estimatesValid (pg_options examplePage) \<and>
   noRestart (Start 0 # replicate 60 (Tick 60000) @ [GoalChange 1, Start 70000, Pause, Start 80000])
     (pageLoaded 0 [] oneMinute examplePage) \<and>
   currentPomodoroCount
     (run (Start 0 # replicate 60 (Tick 60000) @ [GoalChange 1, Start 70000, Pause, Start 80000])
        (pageLoaded 0 [] oneMinute examplePage))
   \<le> totalPomodoros
     (run (Start 0 # replicate 60 (Tick 60000) @ [GoalChange 1, Start 70000, Pause, Start 80000])
        (pageLoaded 0 [] oneMinute examplePage))"
proof -
  have a: "estimatesValid (pg_options examplePage)"
    by code_simp
  have b: "noRestart (Start 0 # replicate 60 (Tick 60000) @ [GoalChange 1, Start 70000, Pause, Start 80000])
     (pageLoaded 0 [] oneMinute examplePage)"
    by code_simp
  from a b count_within_target [OF a b] show ?thesis by simp
qed

text \<open>
  Claim C1, as stated, fails.  With no goal bound the target is one.  After the first work
  interval the counter is one and the start button is enabled; a second work interval
  started there leaves the counter at two.
\<close>

theorem count_exceeds_target_counterexample:
  "\<not> startBtn_disabled (run (Start 0 # replicate 60 (Tick 60000)) ready) \<and>
   currentPomodoroCount
     (run (Start 0 # replicate 60 (Tick 60000) @ Start 70000 # replicate 60 (Tick 130000)) ready) = 2 \<and>
   totalPomodoros
     (run (Start 0 # replicate 60 (Tick 60000) @ Start 70000 # replicate 60 (Tick 130000)) ready) = 1 \<and>
   \<not> currentPomodoroCount
       (run (Start 0 # replicate 60 (Tick 60000) @ Start 70000 # replicate 60 (Tick 130000)) ready)
     \<le> totalPomodoros
       (run (Start 0 # replicate 60 (Tick 60000) @ Start 70000 # replicate 60 (Tick 130000)) ready)"
  by code_simp

end
